theory Spec2Isabelle
  imports Complex_Main
begin

section \<open>Floating-point cells\<close>

text \<open>
  A float64 cell is a finite number, one of the two infinities, or NaN (the missing-value
  marker of pandas). Finite values are real numbers: rounding and the sign of zero are
  not represented. Squares and sums overflow to infinity at the float64 threshold;
  a quotient \<open>c / x\<close> is exact (it could overflow only for a subnormal divisor).
\<close>

datatype flt = Fin real | PInf | NInf | NaN

datatype error =
    KeyError string
  | ValueError string
  | ZeroDivisionError
  | RuntimeError string
  | TransformError string

text \<open>numpy / pandas true division \<open>c / x\<close> of a finite constant by a cell: never raises.\<close>

fun np_div :: "real \<Rightarrow> flt \<Rightarrow> flt" where
  "np_div c NaN = NaN"
| "np_div c PInf = Fin 0"
| "np_div c NInf = Fin 0"
| "np_div c (Fin x) =
     (if x = 0 then (if c = 0 then NaN else if 0 < c then PInf else NInf)
      else Fin (c / x))"

text \<open>Python scalar division \<open>c / x\<close>: a zero divisor raises ZeroDivisionError.\<close>

definition py_div :: "real \<Rightarrow> flt \<Rightarrow> error + flt" where
  "py_div c x = (if x = Fin 0 then Inl ZeroDivisionError else Inr (np_div c x))"

text \<open>Where float64 rounds a result to infinity: half an ulp above its largest number.\<close>

definition float64_limit :: real where
  "float64_limit = 2 ^ 1024 - 2 ^ 970"

definition overflow :: "real \<Rightarrow> flt" where
  "overflow x =
     (if float64_limit \<le> x then PInf else if x \<le> - float64_limit then NInf else Fin x)"

fun flt_sq :: "flt \<Rightarrow> flt" where
  "flt_sq NaN = NaN"
| "flt_sq PInf = PInf"
| "flt_sq NInf = PInf"
| "flt_sq (Fin x) = overflow (x * x)"

fun flt_add :: "flt \<Rightarrow> flt \<Rightarrow> flt" where
  "flt_add NaN _ = NaN"
| "flt_add _ NaN = NaN"
| "flt_add PInf NInf = NaN"
| "flt_add NInf PInf = NaN"
| "flt_add PInf _ = PInf"
| "flt_add _ PInf = PInf"
| "flt_add NInf _ = NInf"
| "flt_add _ NInf = NInf"
| "flt_add (Fin x) (Fin y) = overflow (x + y)"

fun flt_sqrt :: "flt \<Rightarrow> flt" where
  "flt_sqrt NaN = NaN"
| "flt_sqrt PInf = PInf"
| "flt_sqrt NInf = NaN"
| "flt_sqrt (Fin x) = (if x < 0 then NaN else Fin (sqrt x))"

fun flt_abs :: "flt \<Rightarrow> flt" where
  "flt_abs NaN = NaN"
| "flt_abs PInf = PInf"
| "flt_abs NInf = PInf"
| "flt_abs (Fin x) = Fin \<bar>x\<bar>"

text \<open>Comparison \<open>a < b\<close>: False as soon as one side is NaN.\<close>

fun flt_lt :: "flt \<Rightarrow> flt \<Rightarrow> bool" where
  "flt_lt NaN _ = False"
| "flt_lt _ NaN = False"
| "flt_lt (Fin x) (Fin y) = (x < y)"
| "flt_lt PInf _ = False"
| "flt_lt _ NInf = False"
| "flt_lt NInf _ = True"
| "flt_lt _ PInf = True"

definition flt_gt :: "flt \<Rightarrow> flt \<Rightarrow> bool" where
  "flt_gt a b = flt_lt b a"

fun is_finite :: "flt \<Rightarrow> bool" where
  "is_finite (Fin x) = True"
| "is_finite _ = False"

section \<open>Data frames\<close>

text \<open>
  A pandas DataFrame with a default range index: the number of rows and the columns in
  their order, each an int64 or a float64 array.
\<close>

datatype column = IntCol "int list" | FloatCol "flt list"

record dataframe =
  nrows :: nat
  columns :: "(string \<times> column) list"

fun as_floats :: "column \<Rightarrow> flt list" where
  "as_floats (IntCol xs) = map (\<lambda>i. Fin (of_int i)) xs"
| "as_floats (FloatCol xs) = xs"

fun col_len :: "column \<Rightarrow> nat" where
  "col_len (IntCol xs) = length xs"
| "col_len (FloatCol xs) = length xs"

definition wf_df :: "dataframe \<Rightarrow> bool" where
  "wf_df df = list_all (\<lambda>(n, c). col_len c = nrows df) (columns df)"

definition bind :: "error + 'a \<Rightarrow> ('a \<Rightarrow> error + 'b) \<Rightarrow> error + 'b" where
  "bind m f = (case m of Inl e \<Rightarrow> Inl e | Inr x \<Rightarrow> f x)"

text \<open>\<open>df[name]\<close>: KeyError when the column is absent.\<close>

definition get_col :: "dataframe \<Rightarrow> string \<Rightarrow> error + column" where
  "get_col df name =
     (case map_of (columns df) name of None \<Rightarrow> Inl (KeyError name) | Some c \<Rightarrow> Inr c)"

definition get_values :: "dataframe \<Rightarrow> string \<Rightarrow> error + flt list" where
  "get_values df name = bind (get_col df name) (\<lambda>c. Inr (as_floats c))"

fun update_col :: "string \<Rightarrow> column \<Rightarrow> (string \<times> column) list \<Rightarrow> (string \<times> column) list" where
  "update_col k v [] = [(k, v)]"
| "update_col k v ((k', v') # ps) =
     (if k' = k then (k, v) # ps else (k', v') # update_col k v ps)"

text \<open>\<open>df[name] = values\<close>: replaces the column in place or appends it; an array of the
  wrong length raises ValueError.\<close>

definition set_col :: "dataframe \<Rightarrow> string \<Rightarrow> flt list \<Rightarrow> error + dataframe" where
  "set_col df name vs =
     (if length vs \<noteq> nrows df
      then Inl (ValueError ''Length of values does not match length of index'')
      else Inr (df\<lparr>columns := update_col name (FloatCol vs) (columns df)\<rparr>))"

text \<open>\<open>df[name] = np.nan\<close>: the scalar is broadcast over the index.\<close>

definition set_col_scalar :: "dataframe \<Rightarrow> string \<Rightarrow> flt \<Rightarrow> dataframe" where
  "set_col_scalar df name v =
     df\<lparr>columns := update_col name (FloatCol (replicate (nrows df) v)) (columns df)\<rparr>"

definition pointwise :: "('a \<Rightarrow> 'b \<Rightarrow> 'c) \<Rightarrow> 'a list \<Rightarrow> 'b list \<Rightarrow> 'c list" where
  "pointwise f xs ys = map (\<lambda>(x, y). f x y) (zip xs ys)"

definition keep :: "bool list \<Rightarrow> 'a list \<Rightarrow> 'a list" where
  "keep sel xs = map fst (filter snd (zip xs sel))"

fun keep_col :: "bool list \<Rightarrow> column \<Rightarrow> column" where
  "keep_col sel (IntCol xs) = IntCol (keep sel xs)"
| "keep_col sel (FloatCol xs) = FloatCol (keep sel xs)"

text \<open>\<open>df[sel].reset_index(drop=True)\<close> for a boolean series \<open>sel\<close> over the index of
  \<open>df\<close>: the rows where it is True, renumbered.\<close>

definition select_rows :: "bool list \<Rightarrow> dataframe \<Rightarrow> dataframe" where
  "select_rows sel df =
     \<lparr>nrows = length (filter id sel),
      columns = map (\<lambda>(n, c). (n, keep_col sel c)) (columns df)\<rparr>"

text \<open>\<open>xs[:n]\<close> as \<open>head(n)\<close> takes it: a negative \<open>n\<close> drops the last \<open>-n\<close> items.\<close>

definition head_list :: "int \<Rightarrow> 'a list \<Rightarrow> 'a list" where
  "head_list n xs = (if 0 \<le> n then take (nat n) xs else take (length xs - nat (- n)) xs)"

fun head_col :: "int \<Rightarrow> column \<Rightarrow> column" where
  "head_col n (IntCol xs) = IntCol (head_list n xs)"
| "head_col n (FloatCol xs) = FloatCol (head_list n xs)"

definition head :: "int \<Rightarrow> dataframe \<Rightarrow> dataframe" where
  "head n df =
     \<lparr>nrows = (if 0 \<le> n then min (nat n) (nrows df) else nrows df - nat (- n)),
      columns = map (\<lambda>(k, c). (k, head_col n c)) (columns df)\<rparr>"


definition col_lt :: "flt list \<Rightarrow> real \<Rightarrow> bool list" where
  "col_lt vs c = map (\<lambda>v. flt_lt v (Fin c)) vs"

definition col_gt :: "flt list \<Rightarrow> real \<Rightarrow> bool list" where
  "col_gt vs c = map (\<lambda>v. flt_gt v (Fin c)) vs"

section \<open>Text\<close>

text \<open>\<open>str.lower()\<close> on ASCII text; \<open>str(n)\<close> for an integer.\<close>

definition lower_char :: "char \<Rightarrow> char" where
  "lower_char c =
     (if (65::nat) \<le> of_char c \<and> of_char c \<le> (90::nat)
      then char_of (of_char c + (32::nat)) else c)"

definition lower :: "string \<Rightarrow> string" where
  "lower s = map lower_char s"

fun str_nat :: "nat \<Rightarrow> string" where
  "str_nat n =
     (if n < 10 then [char_of (48 + n)]
      else str_nat (n div 10) @ [char_of (48 + n mod 10)])"

declare str_nat.simps [simp del]

definition str_int :: "int \<Rightarrow> string" where
  "str_int i = (if i < 0 then ''-'' @ str_nat (nat (- i)) else str_nat (nat i))"

text \<open>A triple-quoted template: every line is preceded by a newline.\<close>

definition template :: "string list \<Rightarrow> string" where
  "template ls = concat (map (\<lambda>l. CHR 0x0A # l) ls)"

section \<open>The service and its collaborators\<close>

text \<open>
  \<open>stream_criteria\<close> is one entry of the dictionary in \<open>_get_stream_criteria\<close>;
  \<open>velocity_filter\<close> is optional because \<open>search_stellar_stream\<close> tests for the key.
\<close>

record stream_criteria =
  adql_filter :: string
  description :: string
  velocity_filter :: "(dataframe \<Rightarrow> error + dataframe) option"

text \<open>
  A QueryResult object. \<open>data\<close> is the address of its DataFrame in the store: results and
  frames are mutable objects that the service and its caller share.
\<close>

record query_result =
  data :: nat
  query :: string
  row_count :: nat
  description :: string

text \<open>What \<open>SkyCoord\<close> is built from (lines 395-403).\<close>

record sky_coord =
  ra :: "flt list"
  dec :: "flt list"
  distance :: "flt list"
  pm_ra_cosdec :: "flt list"
  pm_dec :: "flt list"
  radial_velocity :: "flt list"

text \<open>
  The libraries the service calls. \<open>launch_job q\<close> stands for
  \<open>Gaia.launch_job(q).get_results().to_pandas()\<close> and \<open>transform_to c\<close> for the astropy
  arithmetic of lines 395-417 (transform to the Galactocentric frame, cylindrical
  differentials), which yields (V_R, V_phi, V_z) for each row; \<open>Inl msg\<close> is an exception
  with that message. The unit conversions of lines 420-424 read these components off
  after the copy and are taken not to raise. \<open>str_float\<close> is the text an f-string gives a
  float.
\<close>

record externals =
  launch_job :: "string \<Rightarrow> string + dataframe"
  transform_to :: "sky_coord \<Rightarrow> string + (flt \<times> flt \<times> flt) list"
  str_float :: "flt \<Rightarrow> string"

text \<open>
  The GaiaService object (\<open>table\<close>, \<open>max_results\<close>, \<open>default_results\<close>, \<open>last_result\<close>)
  together with the store of DataFrame and QueryResult objects, addressed by position,
  and the queries handed to the archive so far, oldest first.
\<close>

record world =
  table :: string
  max_results :: int
  default_results :: int
  last_result :: "nat option"
  frames :: "dataframe list"
  results :: "query_result list"
  launched :: "string list"

definition new_frame :: "dataframe \<Rightarrow> world \<Rightarrow> nat \<times> world" where
  "new_frame df w = (length (frames w), w\<lparr>frames := frames w @ [df]\<rparr>)"

definition set_data :: "nat \<Rightarrow> nat \<Rightarrow> world \<Rightarrow> world" where
  "set_data r d w = w\<lparr>results := (results w)[r := (results w ! r)\<lparr>data := d\<rparr>]\<rparr>"

definition set_row_count :: "nat \<Rightarrow> nat \<Rightarrow> world \<Rightarrow> world" where
  "set_row_count r n w = w\<lparr>results := (results w)[r := (results w ! r)\<lparr>row_count := n\<rparr>]\<rparr>"

definition set_description :: "nat \<Rightarrow> string \<Rightarrow> world \<Rightarrow> world" where
  "set_description r s w =
     w\<lparr>results := (results w)[r := (results w ! r)\<lparr>description := s\<rparr>]\<rparr>"

text \<open>\<open>result.data\<close> and \<open>len(result.data)\<close> for the result at address \<open>r\<close>.\<close>

definition data_of :: "nat \<Rightarrow> world \<Rightarrow> dataframe" where
  "data_of r w = frames w ! data (results w ! r)"

definition len_data :: "nat \<Rightarrow> world \<Rightarrow> nat" where
  "len_data r w = nrows (data_of r w)"

text \<open>\<open>limit or default\<close>: None and 0 are both falsy.\<close>

definition or_default :: "int option \<Rightarrow> int \<Rightarrow> int" where
  "or_default limit d = (case limit of None \<Rightarrow> d | Some n \<Rightarrow> if n = 0 then d else n)"

subsection \<open>execute_adql, get_last_result\<close>

definition execute_adql :: "externals \<Rightarrow> string \<Rightarrow> world \<Rightarrow> (error + nat) \<times> world" where
  "execute_adql ext q w =
     (let w1 = w\<lparr>launched := launched w @ [q]\<rparr> in
      case launch_job ext q of
        Inl msg \<Rightarrow> (Inl (RuntimeError (''ADQL query failed: '' @ msg)), w1)
      | Inr df \<Rightarrow>
          let (d, w2) = new_frame df w1;
              query_result = \<lparr>data = d, query = q, row_count = nrows df,
                description = ''Query returned '' @ str_nat (nrows df) @ '' rows''\<rparr>;
              r = length (results w2)
          in (Inr r, w2\<lparr>results := results w2 @ [query_result], last_result := Some r\<rparr>))"

definition get_last_result :: "world \<Rightarrow> query_result option" where
  "get_last_result w = map_option (\<lambda>r. results w ! r) (last_result w)"

subsection \<open>_add_galactic_velocities\<close>

text \<open>
  What astropy is known to do with the coordinates, whatever its arithmetic returns.
  \<open>SkyCoord\<close> refuses a negative distance (ValueError, "Distance must be >= 0"), so one
  such row fails the whole batch. The arithmetic is row by row in IEEE floating point:
  a row with a NaN among its six inputs, or with a distance that is not finite, comes out
  with NaN in all three components.
\<close>

definition coord_rows :: "sky_coord \<Rightarrow> (flt \<times> flt \<times> flt \<times> flt \<times> flt \<times> flt) list" where
  "coord_rows c =
     zip (ra c) (zip (dec c) (zip (distance c)
       (zip (pm_ra_cosdec c) (zip (pm_dec c) (radial_velocity c)))))"

fun unusable :: "flt \<times> flt \<times> flt \<times> flt \<times> flt \<times> flt \<Rightarrow> bool" where
  "unusable (c_ra, c_dec, c_distance, c_pmra, c_pmdec, c_rv) =
     (c_ra = NaN \<or> c_dec = NaN \<or> \<not> is_finite c_distance
      \<or> c_pmra = NaN \<or> c_pmdec = NaN \<or> c_rv = NaN)"

definition propagate_nan :: "sky_coord \<Rightarrow> (flt \<times> flt \<times> flt) list \<Rightarrow> (flt \<times> flt \<times> flt) list" where
  "propagate_nan c vel =
     map (\<lambda>(row, v). if unusable row then (NaN, NaN, NaN) else v) (zip (coord_rows c) vel)"

definition cylindrical_velocities ::
    "externals \<Rightarrow> sky_coord \<Rightarrow> error + (flt \<times> flt \<times> flt) list" where
  "cylindrical_velocities ext c =
     (if list_ex (\<lambda>d. flt_lt d (Fin 0)) (distance c)
      then Inl (ValueError ''Distance must be >= 0'')
      else case transform_to ext c of
             Inl msg \<Rightarrow> Inl (TransformError msg)
           | Inr vel \<Rightarrow> Inr (propagate_nan c vel))"

text \<open>Lines 395-417: the six columns are read in this order (a missing one raises
  KeyError), the distance is \<open>1000 / parallax\<close> in parsec, and the frame transform runs.\<close>

definition galactocentric_cylindrical ::
    "externals \<Rightarrow> dataframe \<Rightarrow> error + (flt \<times> flt \<times> flt) list" where
  "galactocentric_cylindrical ext df =
     bind (get_values df ''ra'') (\<lambda>c_ra.
     bind (get_values df ''dec'') (\<lambda>c_dec.
     bind (get_values df ''parallax'') (\<lambda>c_parallax.
     bind (get_values df ''pmra'') (\<lambda>c_pmra.
     bind (get_values df ''pmdec'') (\<lambda>c_pmdec.
     bind (get_values df ''radial_velocity'') (\<lambda>c_rv.
       cylindrical_velocities ext
         \<lparr>ra = c_ra, dec = c_dec, distance = map (np_div 1000) c_parallax,
          pm_ra_cosdec = c_pmra, pm_dec = c_pmdec, radial_velocity = c_rv\<rparr>))))))"

definition total_velocity :: "flt \<Rightarrow> flt \<Rightarrow> flt \<Rightarrow> flt" where
  "total_velocity vr vphi vz =
     flt_sqrt (flt_add (flt_add (flt_sq vr) (flt_sq vphi)) (flt_sq vz))"

text \<open>Lines 420-432, on the copy: the three components, then \<open>v_total\<close> from the columns
  just written, then \<open>distance_kpc = 1.0 / df['parallax']\<close>.\<close>

definition derive_columns :: "(flt \<times> flt \<times> flt) list \<Rightarrow> dataframe \<Rightarrow> error + dataframe" where
  "derive_columns vel df =
     bind (set_col df ''V_R'' (map (\<lambda>(a, b, c). a) vel)) (\<lambda>df1.
     bind (set_col df1 ''V_phi'' (map (\<lambda>(a, b, c). b) vel)) (\<lambda>df2.
     bind (set_col df2 ''V_z'' (map (\<lambda>(a, b, c). c) vel)) (\<lambda>df3.
     bind (get_values df3 ''V_R'') (\<lambda>vr.
     bind (get_values df3 ''V_phi'') (\<lambda>vphi.
     bind (get_values df3 ''V_z'') (\<lambda>vz.
     bind (set_col df3 ''v_total''
             (pointwise (\<lambda>(a, b) c. total_velocity a b c) (zip vr vphi) vz)) (\<lambda>df4.
     bind (get_values df4 ''parallax'') (\<lambda>c_parallax.
       set_col df4 ''distance_kpc'' (map (np_div 1) c_parallax)))))))))"

definition derived_names :: "string list" where
  "derived_names = [''V_R'', ''V_phi'', ''V_z'', ''v_total'', ''distance_kpc'']"

text \<open>Lines 437-438, the handler: every derived column becomes NaN.\<close>

definition fill_nan :: "dataframe \<Rightarrow> dataframe" where
  "fill_nan df = foldl (\<lambda>d col. set_col_scalar d col NaN) df derived_names"

text \<open>
  \<open>df\<close> is the address of the caller's frame. An exception raised before line 419 finds
  \<open>df\<close> still bound to the caller's object, which the handler then writes to; one raised
  after \<open>df = df.copy()\<close> finds the copy, whose five derived columns are all overwritten.
\<close>

definition add_galactic_velocities :: "externals \<Rightarrow> nat \<Rightarrow> world \<Rightarrow> nat \<times> world" where
  "add_galactic_velocities ext df w =
     (let f = frames w ! df in
      if nrows f = 0 then (df, w)
      else
        case galactocentric_cylindrical ext f of
          Inl e \<Rightarrow> (df, w\<lparr>frames := (frames w)[df := fill_nan f]\<rparr>)
        | Inr vel \<Rightarrow>
            (case derive_columns vel f of
               Inl e \<Rightarrow> new_frame (fill_nan f) w
             | Inr f' \<Rightarrow> new_frame f' w))"

subsection \<open>_get_stream_criteria\<close>

definition nyx_filter :: "dataframe \<Rightarrow> error + dataframe" where
  "nyx_filter df =
     bind (get_values df ''V_phi'') (\<lambda>vphi.
     bind (get_values df ''V_R'') (\<lambda>vr.
       Inr (select_rows
              (pointwise (\<and>) (pointwise (\<and>) (col_gt vphi 100) (col_gt vr 100)) (col_lt vr 200))
              df)))"

definition gse_filter :: "dataframe \<Rightarrow> error + dataframe" where
  "gse_filter df =
     bind (get_values df ''V_phi'') (\<lambda>vphi.
     bind (get_values df ''V_R'') (\<lambda>vr.
       Inr (select_rows
              (pointwise (\<and>) (col_lt (map flt_abs vphi) 50) (col_gt (map flt_abs vr) 150))
              df)))"

definition helmi_filter :: "dataframe \<Rightarrow> error + dataframe" where
  "helmi_filter df =
     bind (get_values df ''V_z'') (\<lambda>vz.
       Inr (select_rows (pointwise (\<or>) (col_gt vz 150) (col_lt vz (- 150))) df))"

definition sequoia_filter :: "dataframe \<Rightarrow> error + dataframe" where
  "sequoia_filter df =
     bind (get_values df ''V_phi'') (\<lambda>vphi.
       Inr (select_rows (col_lt vphi (- 150)) df))"

definition streams :: "(string \<times> stream_criteria) list" where
  "streams =
     [(''nyx'',
       \<lparr>adql_filter = ''AND b > -30 AND b < 30'',
        description = ''Nyx stream candidates - prograde structure near the disk, ''
                      @ ''discovered by Necib et al. 2020'',
        velocity_filter = Some nyx_filter\<rparr>),
      (''gse'',
       \<lparr>adql_filter = [],
        description = ''Gaia-Sausage-Enceladus candidates - major merger remnant ''
                      @ ''with highly radial orbits'',
        velocity_filter = Some gse_filter\<rparr>),
      (''gaia-sausage-enceladus'',
       \<lparr>adql_filter = [],
        description = ''Gaia-Sausage-Enceladus candidates - major merger remnant ''
                      @ ''with highly radial orbits'',
        velocity_filter = Some gse_filter\<rparr>),
      (''helmi'',
       \<lparr>adql_filter = [],
        description = ''Helmi stream candidates - tidally disrupted dwarf galaxy'',
        velocity_filter = Some helmi_filter\<rparr>),
      (''sequoia'',
       \<lparr>adql_filter = [],
        description = ''Sequoia candidates - retrograde merger remnant'',
        velocity_filter = Some sequoia_filter\<rparr>)]"

definition get_stream_criteria :: "string \<Rightarrow> stream_criteria option" where
  "get_stream_criteria stream_name = map_of streams stream_name"

subsection \<open>Query texts\<close>

definition apostrophe :: string where
  "apostrophe = [CHR 0x27]"

definition cone_query :: "externals \<Rightarrow> string \<Rightarrow> int \<Rightarrow> flt \<Rightarrow> flt \<Rightarrow> flt \<Rightarrow> string" where
  "cone_query ext tbl limit ra_deg dec_deg radius = template
     [''        SELECT TOP '' @ str_int limit,
      ''            source_id, ra, dec, parallax, parallax_error,'',
      ''            pmra, pmdec, radial_velocity,'',
      ''            phot_g_mean_mag, bp_rp,'',
      ''            l, b'',
      ''        FROM '' @ tbl,
      ''        WHERE 1=CONTAINS('',
      ''            POINT('' @ apostrophe @ ''ICRS'' @ apostrophe @ '', ra, dec),'',
      ''            CIRCLE('' @ apostrophe @ ''ICRS'' @ apostrophe @ '', '' @ str_float ext ra_deg
         @ '', '' @ str_float ext dec_deg @ '', '' @ str_float ext radius @ '')'',
      ''        )'',
      ''        AND parallax IS NOT NULL'',
      ''        AND parallax > 0'',
      ''        ORDER BY parallax DESC'',
      ''        '']"

definition solar_neighborhood_query :: "externals \<Rightarrow> string \<Rightarrow> int \<Rightarrow> flt \<Rightarrow> string" where
  "solar_neighborhood_query ext tbl limit min_parallax = template
     [''        SELECT TOP '' @ str_int limit,
      ''            source_id, ra, dec, parallax, parallax_error,'',
      ''            pmra, pmdec, radial_velocity,'',
      ''            phot_g_mean_mag, bp_rp,'',
      ''            l, b, '',
      ''            ruwe'',
      ''        FROM '' @ tbl,
      ''        WHERE parallax > '' @ str_float ext min_parallax,
      ''        AND parallax_over_error > 10'',
      ''        AND ruwe < 1.4'',
      ''        ORDER BY parallax DESC'',
      ''        '']"

definition hypervelocity_query :: "externals \<Rightarrow> string \<Rightarrow> int \<Rightarrow> flt \<Rightarrow> int \<Rightarrow> string" where
  "hypervelocity_query ext tbl limit min_parallax min_pm = template
     [''        SELECT TOP '' @ str_int limit,
      ''            source_id, ra, dec, parallax, parallax_error,'',
      ''            pmra, pmdec, pmra_error, pmdec_error,'',
      ''            radial_velocity, radial_velocity_error,'',
      ''            phot_g_mean_mag, bp_rp,'',
      ''            l, b'',
      ''        FROM '' @ tbl,
      ''        WHERE parallax > '' @ str_float ext min_parallax,
      ''        AND parallax_over_error > 5'',
      ''        AND radial_velocity IS NOT NULL'',
      ''        AND SQRT(pmra*pmra + pmdec*pmdec) > '' @ str_int min_pm,
      ''        ORDER BY SQRT(pmra*pmra + pmdec*pmdec) DESC'',
      ''        '']"

definition stream_query :: "string \<Rightarrow> int \<Rightarrow> string \<Rightarrow> string" where
  "stream_query tbl limit filter_text = template
     [''        SELECT TOP '' @ str_int limit,
      ''            source_id, ra, dec, parallax, parallax_error,'',
      ''            pmra, pmdec, radial_velocity,'',
      ''            phot_g_mean_mag, bp_rp,'',
      ''            l, b'',
      ''        FROM '' @ tbl,
      ''        WHERE parallax > 0.2'',
      ''        AND parallax_over_error > 5'',
      ''        AND radial_velocity IS NOT NULL'',
      ''        '' @ filter_text,
      ''        ORDER BY parallax DESC'',
      ''        '']"

definition accreted_halo_query :: "string \<Rightarrow> int \<Rightarrow> string" where
  "accreted_halo_query tbl limit = template
     [''        SELECT TOP '' @ str_int (limit * 2),
      ''            source_id, ra, dec, parallax, parallax_error,'',
      ''            pmra, pmdec, radial_velocity,'',
      ''            phot_g_mean_mag, bp_rp,'',
      ''            l, b'',
      ''        FROM '' @ tbl,
      ''        WHERE parallax > 0.5'',
      ''        AND parallax_over_error > 5'',
      ''        AND radial_velocity IS NOT NULL'',
      ''        AND ABS(b) > 30'',
      ''        ORDER BY SQRT(pmra*pmra + pmdec*pmdec) DESC'',
      ''        '']"

subsection \<open>Description texts\<close>

definition cone_description :: "externals \<Rightarrow> flt \<Rightarrow> flt \<Rightarrow> flt \<Rightarrow> string" where
  "cone_description ext radius ra_deg dec_deg =
     ''Cone search: '' @ str_float ext radius @ [CHR 0xB0] @ '' around (RA=''
     @ str_float ext ra_deg @ [CHR 0xB0] @ '', Dec='' @ str_float ext dec_deg
     @ [CHR 0xB0] @ '')''"

definition solar_neighborhood_description :: "externals \<Rightarrow> flt \<Rightarrow> string" where
  "solar_neighborhood_description ext distance_pc =
     ''Solar neighborhood within '' @ str_float ext distance_pc @ '' pc''"

definition hypervelocity_description :: "externals \<Rightarrow> flt \<Rightarrow> flt \<Rightarrow> string" where
  "hypervelocity_description ext distance_kpc min_velocity_kms =
     ''Hypervelocity candidates within '' @ str_float ext distance_kpc
     @ '' kpc, v > '' @ str_float ext min_velocity_kms @ '' km/s''"

definition accreted_halo_description :: "bool \<Rightarrow> string" where
  "accreted_halo_description retrograde_only =
     ''Accreted halo stars''
     @ (if retrograde_only then '' (retrograde orbits only)'' else [])"

subsection \<open>The search operations\<close>

text \<open>Each returns the address of its QueryResult, or the exception it raises, and the
  world it leaves behind.\<close>

definition search_cone ::
    "externals \<Rightarrow> flt \<Rightarrow> flt \<Rightarrow> flt \<Rightarrow> int option \<Rightarrow> world \<Rightarrow> (error + nat) \<times> world" where
  "search_cone ext ra_deg dec_deg radius limit w =
     (let limit' = or_default limit (default_results w) in
      case execute_adql ext (cone_query ext (table w) limit' ra_deg dec_deg radius) w of
        (Inl e, w1) \<Rightarrow> (Inl e, w1)
      | (Inr r, w1) \<Rightarrow>
          (Inr r, set_description r (cone_description ext radius ra_deg dec_deg) w1))"

definition search_solar_neighborhood ::
    "externals \<Rightarrow> flt \<Rightarrow> int option \<Rightarrow> world \<Rightarrow> (error + nat) \<times> world" where
  "search_solar_neighborhood ext distance_pc limit w =
     (let limit' = or_default limit (default_results w) in
      case py_div 1000 distance_pc of
        Inl e \<Rightarrow> (Inl e, w)
      | Inr min_parallax \<Rightarrow>
          (case execute_adql ext (solar_neighborhood_query ext (table w) limit' min_parallax) w of
             (Inl e, w1) \<Rightarrow> (Inl e, w1)
           | (Inr r, w1) \<Rightarrow>
               (Inr r, set_description r (solar_neighborhood_description ext distance_pc) w1)))"

definition search_hypervelocity_stars ::
    "externals \<Rightarrow> flt \<Rightarrow> flt \<Rightarrow> int option \<Rightarrow> world \<Rightarrow> (error + nat) \<times> world" where
  "search_hypervelocity_stars ext distance_kpc min_velocity_kms limit w =
     (let limit' = or_default limit (min 500 (default_results w)) in
      case py_div 1 distance_kpc of
        Inl e \<Rightarrow> (Inl e, w)
      | Inr min_parallax \<Rightarrow>
          (case execute_adql ext (hypervelocity_query ext (table w) limit' min_parallax 20) w of
             (Inl e, w1) \<Rightarrow> (Inl e, w1)
           | (Inr r, w1) \<Rightarrow>
               let desc = hypervelocity_description ext distance_kpc min_velocity_kms in
               if 0 < len_data r w1 then
                 (let (d, w2) = add_galactic_velocities ext (data (results w1 ! r)) w1;
                      w3 = set_data r d w2
                  in case get_values (data_of r w3) ''v_total'' of
                       Inl e \<Rightarrow> (Inl e, w3)
                     | Inr vt \<Rightarrow>
                         let (d', w4) = new_frame
                               (select_rows (map (\<lambda>v. flt_gt v min_velocity_kms) vt)
                                  (data_of r w3)) w3;
                             w5 = set_data r d' w4;
                             w6 = set_row_count r (len_data r w5) w5
                         in (Inr r, set_description r desc w6))
               else (Inr r, set_description r desc w1)))"

definition search_stellar_stream ::
    "externals \<Rightarrow> string \<Rightarrow> int option \<Rightarrow> world \<Rightarrow> (error + nat) \<times> world" where
  "search_stellar_stream ext stream_name limit w =
     (let limit' = or_default limit (default_results w);
          stream_name' = lower stream_name
      in case get_stream_criteria stream_name' of
        None \<Rightarrow>
          (Inl (ValueError (''Unknown stream: '' @ stream_name' @ ''. ''
                  @ ''Supported: Nyx, GSE, Gaia-Sausage-Enceladus, Helmi, Sequoia'')), w)
      | Some crit \<Rightarrow>
          (case execute_adql ext (stream_query (table w) limit' (adql_filter crit)) w of
             (Inl e, w1) \<Rightarrow> (Inl e, w1)
           | (Inr r, w1) \<Rightarrow>
               if 0 < len_data r w1 then
                 (let (d, w2) = add_galactic_velocities ext (data (results w1 ! r)) w1;
                      w3 = set_data r d w2
                  in case velocity_filter crit of
                       None \<Rightarrow> (Inr r, set_description r (stream_criteria.description crit) w3)
                     | Some vf \<Rightarrow>
                         (case vf (data_of r w3) of
                            Inl e \<Rightarrow> (Inl e, w3)
                          | Inr df' \<Rightarrow>
                              let (d', w4) = new_frame df' w3;
                                  w5 = set_data r d' w4;
                                  w6 = set_row_count r (len_data r w5) w5
                              in (Inr r,
                                  set_description r (stream_criteria.description crit) w6)))
               else (Inr r, set_description r (stream_criteria.description crit) w1)))"

text \<open>The two selections of \<open>search_accreted_halo\<close> (lines 310-318).\<close>

definition halo_mask :: "bool \<Rightarrow> flt list \<Rightarrow> bool list" where
  "halo_mask retrograde_only vphi =
     (if retrograde_only then col_lt vphi (- 50)
      else pointwise (\<or>) (col_lt (map flt_abs vphi) 100) (col_lt vphi (- 50)))"

definition search_accreted_halo ::
    "externals \<Rightarrow> bool \<Rightarrow> int option \<Rightarrow> world \<Rightarrow> (error + nat) \<times> world" where
  "search_accreted_halo ext retrograde_only limit w =
     (let limit' = or_default limit (default_results w);
          desc = accreted_halo_description retrograde_only
      in case execute_adql ext (accreted_halo_query (table w) limit') w of
        (Inl e, w1) \<Rightarrow> (Inl e, w1)
      | (Inr r, w1) \<Rightarrow>
          if 0 < len_data r w1 then
            (let (d, w2) = add_galactic_velocities ext (data (results w1 ! r)) w1;
                 w3 = set_data r d w2
             in case get_values (data_of r w3) ''V_phi'' of
                  Inl e \<Rightarrow> (Inl e, w3)
                | Inr vphi \<Rightarrow>
                    let (d', w4) = new_frame
                          (head limit' (select_rows (halo_mask retrograde_only vphi)
                             (data_of r w3))) w3;
                        w5 = set_data r d' w4;
                        w6 = set_row_count r (len_data r w5) w5
                    in (Inr r, set_description r desc w6))
          else (Inr r, set_description r desc w1))"

text \<open>The \<open>source_id\<close> values of a frame, for comparing result sets.\<close>

definition source_ids :: "dataframe \<Rightarrow> flt set" where
  "source_ids df =
     (case get_values df ''source_id'' of Inl e \<Rightarrow> {} | Inr ids \<Rightarrow> set ids)"

section \<open>Auxiliary definitions\<close>

text \<open>The frame \<open>derive_columns\<close> returns when it succeeds, written out.\<close>

definition derived :: "(flt \<times> flt \<times> flt) list \<Rightarrow> flt list \<Rightarrow> dataframe \<Rightarrow> dataframe" where
  "derived vel p f =
     f\<lparr>columns :=
         update_col ''distance_kpc'' (FloatCol (map (np_div 1) p))
          (update_col ''v_total'' (FloatCol (map (\<lambda>(a, b, c). total_velocity a b c) vel))
            (update_col ''V_z'' (FloatCol (map (\<lambda>(a, b, c). c) vel))
              (update_col ''V_phi'' (FloatCol (map (\<lambda>(a, b, c). b) vel))
                (update_col ''V_R'' (FloatCol (map (\<lambda>(a, b, c). a) vel)) (columns f)))))\<rparr>"

text \<open>A returned QueryResult whose \<open>row_count\<close> is the length of its \<open>data\<close>; an
  operation that raised returns no result.\<close>

definition row_count_consistent :: "(error + nat) \<times> world \<Rightarrow> bool" where
  "row_count_consistent res =
     (case res of (Inl e, w') \<Rightarrow> True
      | (Inr r, w') \<Rightarrow> row_count (results w' ! r) = len_data r w')"

text \<open>The supported stream keys, as \<open>_get_stream_criteria\<close> spells them.\<close>

definition supported_keys :: "string set" where
  "supported_keys = {''nyx'', ''gse'', ''gaia-sausage-enceladus'', ''helmi'', ''sequoia''}"

text \<open>
  Sample inputs: a catalogue of stars given as (source_id, parallax, radial_velocity),
  collaborators that answer every query with \<open>resp\<close> and every frame transform with
  \<open>vel\<close>, and a freshly initialised service (the defaults of \<open>config.py\<close>) over a store
  holding the frames \<open>fs\<close>.
\<close>

definition catalogue :: "(int \<times> flt \<times> flt) list \<Rightarrow> dataframe" where
  "catalogue stars =
     \<lparr>nrows = length stars,
      columns =
        [(''source_id'', IntCol (map fst stars)),
         (''ra'', FloatCol (map (\<lambda>s. Fin 10) stars)),
         (''dec'', FloatCol (map (\<lambda>s. Fin 20) stars)),
         (''parallax'', FloatCol (map (\<lambda>s. fst (snd s)) stars)),
         (''pmra'', FloatCol (map (\<lambda>s. Fin 30) stars)),
         (''pmdec'', FloatCol (map (\<lambda>s. Fin 40) stars)),
         (''radial_velocity'', FloatCol (map (\<lambda>s. snd (snd s)) stars))]\<rparr>"

definition collaborators ::
    "string + dataframe \<Rightarrow> string + (flt \<times> flt \<times> flt) list \<Rightarrow> externals" where
  "collaborators resp vel =
     \<lparr>launch_job = (\<lambda>q. resp), transform_to = (\<lambda>c. vel), str_float = (\<lambda>x. ''x'')\<rparr>"

definition service :: "dataframe list \<Rightarrow> world" where
  "service fs =
     \<lparr>table = ''gaiadr3.gaia_source'', max_results = 10000, default_results = 1000,
      last_result = None, frames = fs, results = [], launched = []\<rparr>"

text \<open>
  More sample inputs: a single star with parallax 2 mas and radial velocity 5 km/s, the
  same star without a radial velocity, the same star in a table without the proper-motion
  columns, a frame transform that raises for the batch, one that returns the components
  (3, 0, 4) and one that returns NaN components for the only row. \<open>velocities_of\<close> is the frame that
  \<open>_add_galactic_velocities\<close> returns.
\<close>

definition one_star :: dataframe where
  "one_star = catalogue [(1, Fin 2, Fin 5)]"

definition no_radial_velocity :: dataframe where
  "no_radial_velocity = catalogue [(1, Fin 2, NaN)]"

definition failing_transform :: externals where
  "failing_transform = collaborators (Inr (catalogue [])) (Inl ''frame transform failed'')"

definition finite_transform :: externals where
  "finite_transform = collaborators (Inr (catalogue [])) (Inr [(Fin 3, Fin 0, Fin 4)])"

definition no_proper_motion :: dataframe where
  "no_proper_motion =
     \<lparr>nrows = 1,
      columns =
        [(''source_id'', IntCol [1]), (''ra'', FloatCol [Fin 10]), (''dec'', FloatCol [Fin 20]),
         (''parallax'', FloatCol [Fin 2]), (''radial_velocity'', FloatCol [Fin 5])]\<rparr>"

definition nan_transform :: externals where
  "nan_transform = collaborators (Inr (catalogue [])) (Inr [(NaN, NaN, NaN)])"

definition velocities_of :: "externals \<Rightarrow> nat \<Rightarrow> world \<Rightarrow> dataframe" where
  "velocities_of ext df w =
     frames (snd (add_galactic_velocities ext df w)) ! fst (add_galactic_velocities ext df w)"

text \<open>
  Two archives for \<open>search_accreted_halo\<close>: one returns a star with V_phi = 0 followed by
  a star with V_phi = -200, the other a single star with V_phi = -200.
\<close>

definition halo_pair :: externals where
  "halo_pair =
     collaborators (Inr (catalogue [(1, Fin 2, Fin 5), (2, Fin 4, Fin 6)]))
       (Inr [(Fin 0, Fin 0, Fin 0), (Fin 0, Fin (- 200), Fin 0)])"

definition retrograde_star :: externals where
  "retrograde_star =
     collaborators (Inr (catalogue [(7, Fin 2, Fin 5)])) (Inr [(Fin 0, Fin (- 200), Fin 0)])"




definition processed :: "externals \<Rightarrow> dataframe \<Rightarrow> bool" where
  "processed ext f =
     (case galactocentric_cylindrical ext f of Inl e \<Rightarrow> False
      | Inr vel \<Rightarrow> length vel = nrows f)"

text \<open>
  A batch whose second star has a negative parallax, with a transform that would answer
  both rows; a star whose \<open>pmra\<close> cell is missing; a star at parallax 2^-600 mas, with a
  transform returning the finite but huge radial component such a distance leads to.
\<close>

definition mixed_batch :: dataframe where
  "mixed_batch = catalogue [(1, Fin 2, Fin 5), (2, Fin (- 1), Fin 6)]"

definition pair_transform :: externals where
  "pair_transform =
     collaborators (Inr (catalogue [])) (Inr [(Fin 3, Fin 0, Fin 4), (Fin 3, Fin 0, Fin 4)])"

definition no_pmra_value :: dataframe where
  "no_pmra_value =
     \<lparr>nrows = 1,
      columns =
        [(''source_id'', IntCol [1]), (''ra'', FloatCol [Fin 10]), (''dec'', FloatCol [Fin 20]),
         (''parallax'', FloatCol [Fin 2]), (''pmra'', FloatCol [NaN]),
         (''pmdec'', FloatCol [Fin 40]), (''radial_velocity'', FloatCol [Fin 5])]\<rparr>"

definition distant_star :: dataframe where
  "distant_star = catalogue [(1, Fin (1 / 2 ^ 600), Fin 5)]"

definition fast_transform :: externals where
  "fast_transform = collaborators (Inr (catalogue [])) (Inr [(Fin (2 ^ 600), Fin 0, Fin 0)])"

section \<open>Data frame lemmas\<close>

lemma float64_limit_pos: "0 < float64_limit"
  by (simp add: float64_limit_def)

lemma overflow_nonneg:
  "0 \<le> x \<Longrightarrow> overflow x = (if float64_limit \<le> x then PInf else Fin x)"
  using float64_limit_pos by (simp add: overflow_def)

lemma overflow_small: "\<bar>x\<bar> \<le> 2 ^ 32 \<Longrightarrow> overflow x = Fin x"
proof -
  have "(2::real) ^ 32 < float64_limit"
    by (simp add: float64_limit_def)
  then show "\<bar>x\<bar> \<le> 2 ^ 32 \<Longrightarrow> overflow x = Fin x"
    unfolding overflow_def by (auto simp: abs_le_iff)
qed

lemma map_of_update_col: "map_of (update_col k v ps) = (map_of ps)(k \<mapsto> v)"
  by (induction ps) auto

lemma get_col_set_col_scalar:
  "get_col (set_col_scalar df k v) n =
     (if n = k then Inr (FloatCol (replicate (nrows df) v)) else get_col df n)"
  by (simp add: get_col_def set_col_scalar_def map_of_update_col)

lemma nrows_set_col_scalar: "nrows (set_col_scalar df k v) = nrows df"
  by (simp add: set_col_scalar_def)

lemma set_col_Inr:
  "set_col df k vs = Inr df' \<longleftrightarrow>
     length vs = nrows df \<and> df' = df\<lparr>columns := update_col k (FloatCol vs) (columns df)\<rparr>"
  by (auto simp: set_col_def)

lemma nrows_fill_nan: "nrows (fill_nan df) = nrows df"
  by (simp add: fill_nan_def derived_names_def nrows_set_col_scalar)

lemma get_col_fill_nan:
  "get_col (fill_nan df) n =
     (if n \<in> set derived_names then Inr (FloatCol (replicate (nrows df) NaN)) else get_col df n)"
  by (simp add: fill_nan_def derived_names_def get_col_set_col_scalar nrows_set_col_scalar)

lemma get_values_fill_nan:
  "get_values (fill_nan df) n =
     (if n \<in> set derived_names then Inr (replicate (nrows df) NaN) else get_values df n)"
  by (simp add: get_values_def get_col_fill_nan bind_def)

lemma bind_Inr: "bind m f = Inr y \<longleftrightarrow> (\<exists>x. m = Inr x \<and> f x = Inr y)"
  by (cases m) (simp_all add: bind_def)

lemma get_values_len:
  assumes "wf_df df" "get_values df n = Inr vs"
  shows "length vs = nrows df"
proof -
  from assms(2) obtain c where c: "map_of (columns df) n = Some c" and vs: "vs = as_floats c"
    by (auto simp: get_values_def get_col_def bind_def split: option.splits)
  from c have "(n, c) \<in> set (columns df)" by (rule map_of_SomeD)
  with assms(1) have "col_len c = nrows df"
    by (auto simp: wf_df_def list_all_iff)
  then show ?thesis using vs by (cases c) simp_all
qed

lemma pointwise_total:
  "pointwise (\<lambda>(a, b) c. total_velocity a b c)
     (zip (map (\<lambda>(a, b, c). a) vel) (map (\<lambda>(a, b, c). b) vel)) (map (\<lambda>(a, b, c). c) vel)
   = map (\<lambda>(a, b, c). total_velocity a b c) vel"
  by (induction vel) (auto simp: pointwise_def)

lemma derive_columns_Inr:
  assumes "derive_columns vel f = Inr f'"
  shows "length vel = nrows f \<and>
         (\<exists>p. get_values f ''parallax'' = Inr p \<and> length p = nrows f \<and> f' = derived vel p f)"
  using assms
  by (auto simp: derive_columns_def bind_Inr set_col_Inr get_values_def get_col_def
        map_of_update_col pointwise_total derived_def)

lemma derive_columns_ok:
  assumes "length vel = nrows f" "get_values f ''parallax'' = Inr p" "length p = nrows f"
  shows "derive_columns vel f = Inr (derived vel p f)"
  using assms
  by (auto simp: derive_columns_def bind_def set_col_def get_values_def get_col_def
        map_of_update_col pointwise_total derived_def split: option.splits sum.splits)

lemma get_values_derived:
  "get_values (derived vel p f) n =
     (if n = ''distance_kpc'' then Inr (map (np_div 1) p)
      else if n = ''v_total'' then Inr (map (\<lambda>(a, b, c). total_velocity a b c) vel)
      else if n = ''V_z'' then Inr (map (\<lambda>(a, b, c). c) vel)
      else if n = ''V_phi'' then Inr (map (\<lambda>(a, b, c). b) vel)
      else if n = ''V_R'' then Inr (map (\<lambda>(a, b, c). a) vel)
      else get_values f n)"
  by (simp add: derived_def get_values_def get_col_def map_of_update_col bind_def)

lemma nrows_derived: "nrows (derived vel p f) = nrows f"
  by (simp add: derived_def)

lemma get_stream_criteria_None:
  "get_stream_criteria s = None \<longleftrightarrow> s \<notin> supported_keys"
  by (simp add: get_stream_criteria_def streams_def supported_keys_def)

section \<open>Input validation\<close>

text \<open>
  C3. A stream key that, lower-cased, is none of nyx, gse, gaia-sausage-enceladus, helmi,
  sequoia makes \<open>search_stellar_stream\<close> raise ValueError. The message names the key (as
  lower-cased by line 230) and lists the supported keys, and the world is returned as it
  was: in particular no query has been handed to the archive.
\<close>

theorem unknown_stream_rejected:
  assumes "lower key \<notin> supported_keys"
  shows "search_stellar_stream ext key limit w =
           (Inl (ValueError (''Unknown stream: '' @ lower key
                   @ ''. Supported: Nyx, GSE, Gaia-Sausage-Enceladus, Helmi, Sequoia'')), w)"
proof -
  from assms have "get_stream_criteria (lower key) = None"
    by (simp only: get_stream_criteria_None not_False_eq_True)
  then show ?thesis
    by (simp add: search_stellar_stream_def Let_def)
qed

theorem unknown_stream_rejected_witness:
  "lower ''Andromeda'' \<notin> supported_keys \<and>
   search_stellar_stream (collaborators (Inr (catalogue [])) (Inr [])) ''Andromeda'' None
       (service []) =
     (Inl (ValueError (''Unknown stream: andromeda''
             @ ''. Supported: Nyx, GSE, Gaia-Sausage-Enceladus, Helmi, Sequoia'')), service [])
   \<and> launched (service []) = []"
proof -
  have l: "lower ''Andromeda'' = ''andromeda''" by code_simp
  have k: "lower ''Andromeda'' \<notin> supported_keys"
    unfolding l by (simp add: supported_keys_def)
  show ?thesis
    using k unknown_stream_rejected [OF k, of "collaborators (Inr (catalogue [])) (Inr [])"
        None "service []"]
    by (simp add: l service_def)
qed

text \<open>
  C4. \<open>search_solar_neighborhood\<close> with a distance of zero raises at line 133, in the
  division \<open>1000.0 / distance_pc\<close>, before the query text is built and before
  \<open>execute_adql\<close> runs: the exception is Python's ZeroDivisionError, no parallax
  threshold is computed, and the world (the archive log included) is unchanged.
\<close>

theorem zero_distance_rejected:
  "search_solar_neighborhood ext (Fin 0) limit w = (Inl ZeroDivisionError, w)"
  by (simp add: search_solar_neighborhood_def py_div_def)

section \<open>The store and the cached result\<close>

lemma execute_adql_Inr:
  assumes "execute_adql ext q w = (Inr r, w1)"
  shows "\<exists>df. launch_job ext q = Inr df \<and> r = length (results w)
           \<and> results w1 = results w @ [\<lparr>data = length (frames w), query = q, row_count = nrows df,
                 description = ''Query returned '' @ str_nat (nrows df) @ '' rows''\<rparr>]
           \<and> frames w1 = frames w @ [df] \<and> last_result w1 = Some r
           \<and> launched w1 = launched w @ [q]"
  using assms
  by (auto simp: execute_adql_def new_frame_def Let_def split: sum.splits)

lemma execute_adql_bound:
  assumes "execute_adql ext q w = (Inr r, w1)"
  shows "r < length (results w1)"
  using execute_adql_Inr [OF assms] by auto

lemma execute_adql_consistent: "row_count_consistent (execute_adql ext q w)"
  by (simp add: execute_adql_def new_frame_def Let_def row_count_consistent_def nth_append
        len_data_def data_of_def split: sum.splits)

lemma executed_consistent:
  assumes "execute_adql ext q w = (Inr r, w1)"
  shows "row_count (results w1 ! r) = len_data r w1"
  using execute_adql_consistent [of ext q w] assms by (simp add: row_count_consistent_def)

lemma agv_results:
  assumes "add_galactic_velocities ext d w = (d', w')"
  shows "results w' = results w"
  using assms
  by (auto simp: add_galactic_velocities_def Let_def new_frame_def split: if_splits sum.splits)

lemma described_consistent:
  assumes "r < length (results w)" "row_count (results w ! r) = len_data r w"
  shows "row_count_consistent (Inr r, set_description r desc w)"
  using assms by (simp add: set_description_def row_count_consistent_def len_data_def data_of_def)

lemma installed_consistent:
  assumes "r < length (results w3)" "new_frame X w3 = (d', w4)"
  shows "row_count_consistent
           (Inr r, set_description r desc
              (set_row_count r (len_data r (set_data r d' w4)) (set_data r d' w4)))"
  using assms
  by (auto simp: new_frame_def set_data_def set_row_count_def set_description_def
        len_data_def data_of_def row_count_consistent_def)

lemma velocities_then_bound:
  assumes "execute_adql ext q w = (Inr r, w1)"
    and "add_galactic_velocities ext d w1 = (d', w2)"
  shows "r < length (results (set_data r d' w2))"
  using execute_adql_bound [OF assms(1)] agv_results [OF assms(2)]
  by (simp add: set_data_def)

lemma search_cone_consistent: "row_count_consistent (search_cone ext a b c limit w)"
proof -
  obtain x w1 where e: "execute_adql ext
      (cone_query ext (table w) (or_default limit (default_results w)) a b c) w = (x, w1)"
    by force
  show ?thesis
  proof (cases x)
    case (Inl err)
    with e show ?thesis by (simp add: search_cone_def Let_def row_count_consistent_def)
  next
    case (Inr r)
    with e described_consistent [OF execute_adql_bound executed_consistent, of ext _ w r w1]
    show ?thesis by (simp add: search_cone_def Let_def)
  qed
qed

lemma search_solar_neighborhood_consistent:
  "row_count_consistent (search_solar_neighborhood ext dpc limit w)"
proof (cases "py_div 1000 dpc")
  case (Inl err)
  then show ?thesis
    by (simp add: search_solar_neighborhood_def Let_def row_count_consistent_def)
next
  case p: (Inr p)
  obtain x w1 where e: "execute_adql ext
      (solar_neighborhood_query ext (table w) (or_default limit (default_results w)) p) w = (x, w1)"
    by force
  show ?thesis
  proof (cases x)
    case (Inl err)
    with e p show ?thesis
      by (simp add: search_solar_neighborhood_def Let_def row_count_consistent_def)
  next
    case (Inr r)
    with e p described_consistent [OF execute_adql_bound executed_consistent, of ext _ w r w1]
    show ?thesis by (simp add: search_solar_neighborhood_def Let_def)
  qed
qed

lemma search_hypervelocity_stars_consistent:
  "row_count_consistent (search_hypervelocity_stars ext dkpc vmin limit w)"
proof (cases "py_div 1 dkpc")
  case (Inl err)
  then show ?thesis
    by (simp add: search_hypervelocity_stars_def Let_def row_count_consistent_def)
next
  case p: (Inr p)
  obtain x w1 where e: "execute_adql ext (hypervelocity_query ext (table w)
      (or_default limit (min 500 (default_results w))) p 20) w = (x, w1)"
    by force
  show ?thesis
  proof (cases x)
    case (Inl err)
    with e p show ?thesis
      by (simp add: search_hypervelocity_stars_def Let_def row_count_consistent_def)
  next
    case r: (Inr r)
    note e = e [unfolded r]
    show ?thesis
    proof (cases "0 < len_data r w1")
      case False
      with e p described_consistent [OF execute_adql_bound [OF e] executed_consistent [OF e]]
      show ?thesis by (simp add: search_hypervelocity_stars_def Let_def)
    next
      case True
      obtain d w2 where a: "add_galactic_velocities ext (data (results w1 ! r)) w1 = (d, w2)"
        by force
      show ?thesis
      proof (cases "get_values (data_of r (set_data r d w2)) ''v_total''")
        case (Inl err)
        with e p a True show ?thesis
          by (simp add: search_hypervelocity_stars_def Let_def row_count_consistent_def)
      next
        case (Inr vt)
        obtain d' w4 where n: "new_frame (select_rows (map (\<lambda>v. flt_gt v vmin) vt)
            (data_of r (set_data r d w2))) (set_data r d w2) = (d', w4)"
          by force
        from e p a True Inr n
          installed_consistent [OF velocities_then_bound [OF e a] n]
        show ?thesis
          by (simp add: search_hypervelocity_stars_def Let_def)
      qed
    qed
  qed
qed


lemma registered_filter:
  assumes "get_stream_criteria s = Some crit"
  shows "\<exists>vf. velocity_filter crit = Some vf"
  using assms
  by (auto simp: get_stream_criteria_def streams_def split: if_splits)

lemma search_stellar_stream_consistent:
  "row_count_consistent (search_stellar_stream ext key limit w)"
proof (cases "get_stream_criteria (lower key)")
  case None
  then show ?thesis
    by (simp add: search_stellar_stream_def Let_def row_count_consistent_def)
next
  case c: (Some crit)
  then obtain vf where vf: "velocity_filter crit = Some vf"
    using registered_filter by blast
  obtain x w1 where e: "execute_adql ext (stream_query (table w)
      (or_default limit (default_results w)) (adql_filter crit)) w = (x, w1)"
    by force
  show ?thesis
  proof (cases x)
    case (Inl err)
    with e c show ?thesis
      by (simp add: search_stellar_stream_def Let_def row_count_consistent_def)
  next
    case r: (Inr r)
    note e = e [unfolded r]
    show ?thesis
    proof (cases "0 < len_data r w1")
      case False
      with e c described_consistent [OF execute_adql_bound [OF e] executed_consistent [OF e]]
      show ?thesis by (simp add: search_stellar_stream_def Let_def)
    next
      case True
      obtain d w2 where a: "add_galactic_velocities ext (data (results w1 ! r)) w1 = (d, w2)"
        by force
      show ?thesis
      proof (cases "vf (data_of r (set_data r d w2))")
        case (Inl err)
        with e c a vf True show ?thesis
          by (simp add: search_stellar_stream_def Let_def row_count_consistent_def)
      next
        case (Inr df')
        obtain d' w4 where n: "new_frame df' (set_data r d w2) = (d', w4)"
          by force
        from e c a vf True Inr n
          installed_consistent [OF velocities_then_bound [OF e a] n]
        show ?thesis
          by (simp add: search_stellar_stream_def Let_def)
      qed
    qed
  qed
qed

lemma search_accreted_halo_consistent:
  "row_count_consistent (search_accreted_halo ext retro limit w)"
proof -
  obtain x w1 where e: "execute_adql ext (accreted_halo_query (table w)
      (or_default limit (default_results w))) w = (x, w1)"
    by force
  show ?thesis
  proof (cases x)
    case (Inl err)
    with e show ?thesis
      by (simp add: search_accreted_halo_def Let_def row_count_consistent_def)
  next
    case r: (Inr r)
    note e = e [unfolded r]
    show ?thesis
    proof (cases "0 < len_data r w1")
      case False
      with e described_consistent [OF execute_adql_bound [OF e] executed_consistent [OF e]]
      show ?thesis by (simp add: search_accreted_halo_def Let_def)
    next
      case True
      obtain d w2 where a: "add_galactic_velocities ext (data (results w1 ! r)) w1 = (d, w2)"
        by force
      show ?thesis
      proof (cases "get_values (data_of r (set_data r d w2)) ''V_phi''")
        case (Inl err)
        with e a True show ?thesis
          by (simp add: search_accreted_halo_def Let_def row_count_consistent_def)
      next
        case (Inr vphi)
        obtain d' w4 where n: "new_frame (head (or_default limit (default_results w))
            (select_rows (halo_mask retro vphi) (data_of r (set_data r d w2))))
            (set_data r d w2) = (d', w4)"
          by force
        from e a True Inr n
          installed_consistent [OF velocities_then_bound [OF e a] n]
        show ?thesis
          by (simp add: search_accreted_halo_def Let_def)
      qed
    qed
  qed
qed

lemma consistent_returned:
  assumes "row_count_consistent res" "fst res = Inr r"
  shows "row_count (results (snd res) ! r) = len_data r (snd res)"
  using assms by (cases res) (simp add: row_count_consistent_def)

lemmas run_defs =
  collaborators_def service_def catalogue_def py_div_def or_default_def execute_adql_def
  new_frame_def Let_def len_data_def data_of_def add_galactic_velocities_def
  galactocentric_cylindrical_def cylindrical_velocities_def propagate_nan_def coord_rows_def
  overflow_small
  get_values_def get_col_def bind_def derive_columns_def
  set_col_def pointwise_def total_velocity_def set_data_def set_row_count_def
  set_description_def select_rows_def keep_def flt_gt_def col_lt_def col_gt_def

text \<open>
  C9. \<open>execute_adql\<close> is atomic with respect to the cached last result. When the archive
  call or the conversion of its answer fails with message \<open>msg\<close>, the operation raises
  RuntimeError carrying \<open>msg\<close> and the stored last result, the results and the frames are
  what they were; when it succeeds, the stored last result is the new QueryResult.
\<close>

theorem execute_adql_atomic:
  "(launch_job ext q = Inl msg \<longrightarrow>
      fst (execute_adql ext q w) = Inl (RuntimeError (''ADQL query failed: '' @ msg))
      \<and> last_result (snd (execute_adql ext q w)) = last_result w
      \<and> results (snd (execute_adql ext q w)) = results w
      \<and> frames (snd (execute_adql ext q w)) = frames w
      \<and> get_last_result (snd (execute_adql ext q w)) = get_last_result w)
   \<and> (launch_job ext q = Inr df \<longrightarrow>
      fst (execute_adql ext q w) = Inr (length (results w))
      \<and> last_result (snd (execute_adql ext q w)) = Some (length (results w))
      \<and> get_last_result (snd (execute_adql ext q w)) =
          Some \<lparr>data = length (frames w), query = q, row_count = nrows df,
                description = ''Query returned '' @ str_nat (nrows df) @ '' rows''\<rparr>
      \<and> frames (snd (execute_adql ext q w)) = frames w @ [df]
      \<and> results (snd (execute_adql ext q w)) =
          results w @ [\<lparr>data = length (frames w), query = q, row_count = nrows df,
                description = ''Query returned '' @ str_nat (nrows df) @ '' rows''\<rparr>])"
  by (simp add: execute_adql_def new_frame_def Let_def get_last_result_def)


theorem execute_adql_atomic_witness:
  "(let ok = collaborators (Inr (catalogue [(1, Fin 2, Fin 5)])) (Inr []);
        bad = collaborators (Inl ''timeout'') (Inr []);
        w = snd (execute_adql ok ''SELECT 1'' (service []))
    in launch_job bad ''SELECT 2'' = Inl ''timeout''
       \<and> fst (execute_adql bad ''SELECT 2'' w) = Inl (RuntimeError ''ADQL query failed: timeout'')
       \<and> get_last_result (snd (execute_adql bad ''SELECT 2'' w)) = get_last_result w
       \<and> map_option query (get_last_result w) = Some ''SELECT 1''
       \<and> launch_job ok ''SELECT 2'' = Inr (catalogue [(1, Fin 2, Fin 5)])
       \<and> fst (execute_adql ok ''SELECT 2'' w) = Inr 1
       \<and> map_option query (get_last_result (snd (execute_adql ok ''SELECT 2'' w)))
           = Some ''SELECT 2'')"
proof -
  define ok where "ok = collaborators (Inr (catalogue [(1, Fin 2, Fin 5)])) (Inr [])"
  define bad where "bad = collaborators (Inl ''timeout'') (Inr [])"
  define w where "w = snd (execute_adql ok ''SELECT 1'' (service []))"
  have b: "launch_job bad ''SELECT 2'' = Inl ''timeout''"
    by (simp add: bad_def collaborators_def)
  have k: "launch_job ok ''SELECT 2'' = Inr (catalogue [(1, Fin 2, Fin 5)])"
    by (simp add: ok_def collaborators_def)
  have l: "map_option query (get_last_result w) = Some ''SELECT 1''"
    and n: "length (results w) = 1"
    by (simp_all add: w_def ok_def collaborators_def service_def execute_adql_def
          new_frame_def Let_def get_last_result_def)
  show ?thesis
    unfolding Let_def ok_def [symmetric] bad_def [symmetric] w_def [symmetric]
    using execute_adql_atomic [of bad "''SELECT 2''" "''timeout''" w]
      execute_adql_atomic [of ok "''SELECT 2''" _ w "catalogue [(1, Fin 2, Fin 5)]"] b k l n
    by simp
qed

section \<open>Row counts\<close>

text \<open>
  C10. Every QueryResult returned by \<open>execute_adql\<close>, \<open>search_cone\<close>,
  \<open>search_solar_neighborhood\<close>, \<open>search_hypervelocity_stars\<close>, \<open>search_stellar_stream\<close> and
  \<open>search_accreted_halo\<close> has \<open>row_count\<close> equal to the number of rows of its data frame,
  also after the velocity selection has removed rows.
\<close>

theorem row_count_is_length_of_data:
  "row_count_consistent (execute_adql ext q w)
   \<and> row_count_consistent (search_cone ext ra_deg dec_deg radius limit w)
   \<and> row_count_consistent (search_solar_neighborhood ext distance_pc limit w)
   \<and> row_count_consistent (search_hypervelocity_stars ext distance_kpc min_velocity_kms limit w)
   \<and> row_count_consistent (search_stellar_stream ext stream_name limit w)
   \<and> row_count_consistent (search_accreted_halo ext retrograde_only limit w)"
  by (simp add: execute_adql_consistent search_cone_consistent
        search_solar_neighborhood_consistent search_hypervelocity_stars_consistent
        search_stellar_stream_consistent search_accreted_halo_consistent)



theorem row_count_is_length_of_data_witness:
  "(let ext = collaborators (Inr (catalogue [(1, Fin 2, Fin 5), (2, Fin 4, Fin 6)]))
                (Inr [(Fin 0, Fin 0, Fin 400), (Fin 0, Fin (- 200), Fin 0)]);
        w = service []
    in (fst (execute_adql ext ''SELECT 1'' w) = Inr 0
        \<and> row_count (results (snd (execute_adql ext ''SELECT 1'' w)) ! 0) = 2
        \<and> len_data 0 (snd (execute_adql ext ''SELECT 1'' w)) = 2)
     \<and> (fst (search_cone ext (Fin 180) (Fin 45) (Fin 2) None w) = Inr 0
        \<and> row_count (results (snd (search_cone ext (Fin 180) (Fin 45) (Fin 2) None w)) ! 0) = 2
        \<and> len_data 0 (snd (search_cone ext (Fin 180) (Fin 45) (Fin 2) None w)) = 2)
     \<and> (fst (search_solar_neighborhood ext (Fin 100) None w) = Inr 0
        \<and> row_count (results (snd (search_solar_neighborhood ext (Fin 100) None w)) ! 0) = 2
        \<and> len_data 0 (snd (search_solar_neighborhood ext (Fin 100) None w)) = 2)
     \<and> (fst (search_hypervelocity_stars ext (Fin 5) (Fin 300) None w) = Inr 0
        \<and> row_count (results (snd (search_hypervelocity_stars ext (Fin 5) (Fin 300) None w)) ! 0) = 1
        \<and> len_data 0 (snd (search_hypervelocity_stars ext (Fin 5) (Fin 300) None w)) = 1)
     \<and> (fst (search_stellar_stream ext ''Helmi'' None w) = Inr 0
        \<and> row_count (results (snd (search_stellar_stream ext ''Helmi'' None w)) ! 0) = 1
        \<and> len_data 0 (snd (search_stellar_stream ext ''Helmi'' None w)) = 1)
     \<and> (fst (search_accreted_halo ext True None w) = Inr 0
        \<and> row_count (results (snd (search_accreted_halo ext True None w)) ! 0) = 1
        \<and> len_data 0 (snd (search_accreted_halo ext True None w)) = 1))"
proof -
  define ext where "ext = collaborators (Inr (catalogue [(1, Fin 2, Fin 5), (2, Fin 4, Fin 6)]))
                (Inr [(Fin 0, Fin 0, Fin 400), (Fin 0, Fin (- 200), Fin 0)])"
  define w where "w = service []"
  note all = row_count_is_length_of_data [of ext "''SELECT 1''" w "Fin 180" "Fin 45" "Fin 2" None
      "Fin 100" "Fin 5" "Fin 300" "''Helmi''" True]
  have l: "lower ''Helmi'' = ''helmi''" by code_simp
  have 1: "fst (execute_adql ext ''SELECT 1'' w) = Inr 0"
    and 2: "len_data 0 (snd (execute_adql ext ''SELECT 1'' w)) = 2"
    by (simp_all add: ext_def w_def run_defs)
  have 3: "fst (search_cone ext (Fin 180) (Fin 45) (Fin 2) None w) = Inr 0"
    and 4: "len_data 0 (snd (search_cone ext (Fin 180) (Fin 45) (Fin 2) None w)) = 2"
    by (simp_all add: ext_def w_def search_cone_def run_defs)
  have 5: "fst (search_solar_neighborhood ext (Fin 100) None w) = Inr 0"
    and 6: "len_data 0 (snd (search_solar_neighborhood ext (Fin 100) None w)) = 2"
    by (simp_all add: ext_def w_def search_solar_neighborhood_def run_defs)
  have 7: "fst (search_hypervelocity_stars ext (Fin 5) (Fin 300) None w) = Inr 0"
    and 8: "len_data 0 (snd (search_hypervelocity_stars ext (Fin 5) (Fin 300) None w)) = 1"
    by (simp_all add: ext_def w_def search_hypervelocity_stars_def run_defs)
  have 9: "fst (search_stellar_stream ext ''Helmi'' None w) = Inr 0"
    and 10: "len_data 0 (snd (search_stellar_stream ext ''Helmi'' None w)) = 1"
    by (simp_all add: ext_def w_def search_stellar_stream_def l get_stream_criteria_def
          streams_def helmi_filter_def run_defs)
  have 11: "fst (search_accreted_halo ext True None w) = Inr 0"
    and 12: "len_data 0 (snd (search_accreted_halo ext True None w)) = 1"
    by (simp_all add: ext_def w_def search_accreted_halo_def halo_mask_def head_def
          head_list_def run_defs)
  show ?thesis
    unfolding Let_def ext_def [symmetric] w_def [symmetric]
    using all 1 2 3 4 5 6 7 8 9 10 11 12
    by (simp add: consistent_returned)
qed


section \<open>The velocity transform\<close>

lemmas sample_defs =
  one_star_def no_radial_velocity_def no_proper_motion_def failing_transform_def
  finite_transform_def nan_transform_def mixed_batch_def pair_transform_def
  no_pmra_value_def distant_star_def fast_transform_def

lemma agv_failure:
  assumes "0 < nrows (frames w ! df)"
    and "galactocentric_cylindrical ext (frames w ! df) = Inl e"
  shows "add_galactic_velocities ext df w =
           (df, w\<lparr>frames := (frames w)[df := fill_nan (frames w ! df)]\<rparr>)"
  using assms by (simp add: add_galactic_velocities_def Let_def)

lemma agv_success:
  assumes "0 < nrows (frames w ! df)" and "wf_df (frames w ! df)"
    and "galactocentric_cylindrical ext (frames w ! df) = Inr vel"
    and "length vel = nrows (frames w ! df)"
    and "get_values (frames w ! df) ''parallax'' = Inr p"
  shows "add_galactic_velocities ext df w =
           (length (frames w), w\<lparr>frames := frames w @ [derived vel p (frames w ! df)]\<rparr>)"
proof -
  have "length p = nrows (frames w ! df)"
    using assms(2,5) by (rule get_values_len)
  then have "derive_columns vel (frames w ! df) = Inr (derived vel p (frames w ! df))"
    using assms(4,5) by (simp add: derive_columns_ok)
  then show ?thesis
    using assms(1,3) by (simp add: add_galactic_velocities_def Let_def new_frame_def)
qed

lemma velocities_of_failure:
  assumes "df < length (frames w)" "0 < nrows (frames w ! df)"
    and "galactocentric_cylindrical ext (frames w ! df) = Inl e"
  shows "velocities_of ext df w = fill_nan (frames w ! df)"
  using assms by (simp add: velocities_of_def agv_failure)

lemma velocities_of_success:
  assumes "0 < nrows (frames w ! df)" and "wf_df (frames w ! df)"
    and "galactocentric_cylindrical ext (frames w ! df) = Inr vel"
    and "length vel = nrows (frames w ! df)"
    and "get_values (frames w ! df) ''parallax'' = Inr p"
  shows "velocities_of ext df w = derived vel p (frames w ! df)"
  using agv_success [OF assms] by (simp add: velocities_of_def)



lemma total_velocity_NaN:
  "total_velocity a b c = NaN \<longleftrightarrow> a = NaN \<or> b = NaN \<or> c = NaN"
proof (cases "a = NaN \<or> b = NaN \<or> c = NaN")
  case True
  then show ?thesis
    by (cases a; cases b; cases c) (auto simp: total_velocity_def overflow_def)
next
  case False
  have sq: "flt_sq v = PInf \<or> (\<exists>y. flt_sq v = Fin y \<and> 0 \<le> y)" if "v \<noteq> NaN" for v
    using that by (cases v) (auto simp: overflow_nonneg)
  have ad: "flt_add u v = PInf \<or> (\<exists>y. flt_add u v = Fin y \<and> 0 \<le> y)"
    if "u = PInf \<or> (\<exists>y. u = Fin y \<and> 0 \<le> y)" "v = PInf \<or> (\<exists>y. v = Fin y \<and> 0 \<le> y)" for u v
    using that by (cases u; cases v) (simp_all add: overflow_nonneg)
  from False have "flt_add (flt_add (flt_sq a) (flt_sq b)) (flt_sq c) = PInf
      \<or> (\<exists>y. flt_add (flt_add (flt_sq a) (flt_sq b)) (flt_sq c) = Fin y \<and> 0 \<le> y)"
    by (intro ad sq) simp_all
  then have "total_velocity a b c \<noteq> NaN"
    by (auto simp: total_velocity_def)
  with False show ?thesis by simp
qed

lemma np_div_NaN: "np_div 1 x = NaN \<longleftrightarrow> x = NaN"
  by (cases x) auto

lemma coord_rows_length:
  "length (coord_rows c) =
     min (length (ra c)) (min (length (dec c)) (min (length (distance c))
       (min (length (pm_ra_cosdec c)) (min (length (pm_dec c)) (length (radial_velocity c))))))"
  by (simp add: coord_rows_def)

lemma coord_rows_nth:
  assumes "i < length (coord_rows c)"
  shows "coord_rows c ! i =
           (ra c ! i, dec c ! i, distance c ! i, pm_ra_cosdec c ! i, pm_dec c ! i,
            radial_velocity c ! i)"
  using assms by (simp add: coord_rows_def)

lemma propagate_nan_length:
  "length (propagate_nan c out) = min (length (coord_rows c)) (length out)"
  by (simp add: propagate_nan_def)

lemma propagate_nan_nth:
  assumes "i < length (propagate_nan c out)"
  shows "propagate_nan c out ! i =
           (if unusable (coord_rows c ! i) then (NaN, NaN, NaN) else out ! i)"
  using assms by (simp add: propagate_nan_def)

lemma galactocentric_Inr:
  assumes "galactocentric_cylindrical ext f = Inr vel"
  shows "\<exists>c_ra c_dec p c_pmra c_pmdec r out.
           get_values f ''ra'' = Inr c_ra \<and> get_values f ''dec'' = Inr c_dec
         \<and> get_values f ''parallax'' = Inr p \<and> get_values f ''pmra'' = Inr c_pmra
         \<and> get_values f ''pmdec'' = Inr c_pmdec \<and> get_values f ''radial_velocity'' = Inr r
         \<and> \<not> list_ex (\<lambda>d. flt_lt d (Fin 0)) (map (np_div 1000) p)
         \<and> transform_to ext
              \<lparr>ra = c_ra, dec = c_dec, distance = map (np_div 1000) p,
               pm_ra_cosdec = c_pmra, pm_dec = c_pmdec, radial_velocity = r\<rparr> = Inr out
         \<and> vel = propagate_nan
              \<lparr>ra = c_ra, dec = c_dec, distance = map (np_div 1000) p,
               pm_ra_cosdec = c_pmra, pm_dec = c_pmdec, radial_velocity = r\<rparr> out"
  using assms
  by (auto simp: galactocentric_cylindrical_def bind_Inr cylindrical_velocities_def
        split: if_splits sum.splits)


lemma processed_row:
  assumes "galactocentric_cylindrical ext f = Inr vel" and "i < length vel"
  shows "\<exists>c_ra c_dec p c_pmra c_pmdec r out c.
           get_values f ''ra'' = Inr c_ra \<and> get_values f ''dec'' = Inr c_dec
         \<and> get_values f ''parallax'' = Inr p \<and> get_values f ''pmra'' = Inr c_pmra
         \<and> get_values f ''pmdec'' = Inr c_pmdec \<and> get_values f ''radial_velocity'' = Inr r
         \<and> transform_to ext c = Inr out \<and> i < length out \<and> i < length (coord_rows c)
         \<and> coord_rows c ! i =
             (c_ra ! i, c_dec ! i, np_div 1000 (p ! i), c_pmra ! i, c_pmdec ! i, r ! i)
         \<and> \<not> flt_lt (np_div 1000 (p ! i)) (Fin 0)
         \<and> vel ! i = (if unusable (coord_rows c ! i) then (NaN, NaN, NaN) else out ! i)"
proof -
  from galactocentric_Inr [OF assms(1)] obtain c_ra c_dec p c_pmra c_pmdec r out where
    cols: "get_values f ''ra'' = Inr c_ra" "get_values f ''dec'' = Inr c_dec"
      "get_values f ''parallax'' = Inr p" "get_values f ''pmra'' = Inr c_pmra"
      "get_values f ''pmdec'' = Inr c_pmdec" "get_values f ''radial_velocity'' = Inr r"
    and neg: "\<not> list_ex (\<lambda>d. flt_lt d (Fin 0)) (map (np_div 1000) p)"
    and out: "transform_to ext
              \<lparr>ra = c_ra, dec = c_dec, distance = map (np_div 1000) p,
               pm_ra_cosdec = c_pmra, pm_dec = c_pmdec, radial_velocity = r\<rparr> = Inr out"
    and vel: "vel = propagate_nan
              \<lparr>ra = c_ra, dec = c_dec, distance = map (np_div 1000) p,
               pm_ra_cosdec = c_pmra, pm_dec = c_pmdec, radial_velocity = r\<rparr> out"
    by blast
  define c where "c = \<lparr>ra = c_ra, dec = c_dec, distance = map (np_div 1000) p,
               pm_ra_cosdec = c_pmra, pm_dec = c_pmdec, radial_velocity = r\<rparr>"
  from assms(2) have i: "i < length (coord_rows c)" "i < length out"
    by (simp_all add: vel c_def propagate_nan_length)
  then have ip: "i < length p"
    by (simp add: coord_rows_length c_def)
  have row: "coord_rows c ! i =
             (c_ra ! i, c_dec ! i, np_div 1000 (p ! i), c_pmra ! i, c_pmdec ! i, r ! i)"
    using i(1) ip by (simp add: coord_rows_nth c_def)
  from ip have "np_div 1000 (p ! i) \<in> set (map (np_div 1000) p)"
    by simp
  with neg have nn: "\<not> flt_lt (np_div 1000 (p ! i)) (Fin 0)"
    unfolding list_ex_iff by blast
  have v: "vel ! i = (if unusable (coord_rows c ! i) then (NaN, NaN, NaN) else out ! i)"
    using assms(2) unfolding vel c_def [symmetric] by (rule propagate_nan_nth)
  from cols out i row nn v show ?thesis
    unfolding c_def [symmetric] by blast
qed



lemma velocities_of_unprocessed:
  assumes "df < length (frames w)" and "0 < nrows (frames w ! df)"
    and "\<not> processed ext (frames w ! df)"
  shows "velocities_of ext df w = fill_nan (frames w ! df)"
proof (cases "galactocentric_cylindrical ext (frames w ! df)")
  case (Inl e)
  with assms(1,2) show ?thesis by (simp add: velocities_of_failure)
next
  case (Inr vel)
  with assms(3) have "length vel \<noteq> nrows (frames w ! df)"
    by (simp add: processed_def)
  then obtain e where "derive_columns vel (frames w ! df) = Inl e"
    using derive_columns_Inr [of vel "frames w ! df"]
    by (cases "derive_columns vel (frames w ! df)") auto
  with Inr assms(2) show ?thesis
    by (simp add: velocities_of_def add_galactic_velocities_def Let_def new_frame_def)
qed

lemma unconvertible_components:
  assumes "galactocentric_cylindrical ext f = Inr vel" and "i < length vel"
    and "get_values f ''parallax'' = Inr p" and "get_values f ''radial_velocity'' = Inr r"
    and "(\<exists>x. p ! i = Fin x \<and> x \<le> 0) \<or> r ! i = NaN"
  shows "vel ! i = (NaN, NaN, NaN) \<and> \<not> (\<exists>x. p ! i = Fin x \<and> x < 0)"
proof -
  from processed_row [OF assms(1,2)] assms(3,4)
  obtain c_ra c_dec c_pmra c_pmdec c where
    row: "coord_rows c ! i =
             (c_ra ! i, c_dec ! i, np_div 1000 (p ! i), c_pmra ! i, c_pmdec ! i, r ! i)"
    and nn: "\<not> flt_lt (np_div 1000 (p ! i)) (Fin 0)"
    and v: "vel ! i = (if unusable (coord_rows c ! i) then (NaN, NaN, NaN) else vel ! i)"
    by auto
  have neg: "\<not> (\<exists>x. p ! i = Fin x \<and> x < 0)"
    using nn by (auto simp: field_simps)
  have "unusable (coord_rows c ! i)"
  proof (cases "r ! i = NaN")
    case True
    then show ?thesis by (simp add: row)
  next
    case False
    with assms(5) obtain x where "p ! i = Fin x" "x \<le> 0" by blast
    with neg have "p ! i = Fin 0" by force
    then show ?thesis by (simp add: row)
  qed
  with v neg show ?thesis by metis
qed


text \<open>
  C6. When the Galactocentric transform cannot be computed for a non-empty batch (the
  library raises, or a column it needs is absent), \<open>_add_galactic_velocities\<close> still
  returns a frame: it has the same number of rows, every other column is as it was, and
  each of V_R, V_phi, V_z, v_total, distance_kpc is NaN in every row, which is not zero.
\<close>

theorem transform_failure_marks_missing:
  assumes "df < length (frames w)" and "0 < nrows (frames w ! df)"
    and "galactocentric_cylindrical ext (frames w ! df) = Inl e"
  shows "nrows (velocities_of ext df w) = nrows (frames w ! df)
     \<and> (\<forall>n. n \<notin> set derived_names \<longrightarrow>
            get_col (velocities_of ext df w) n = get_col (frames w ! df) n)
     \<and> (\<forall>n \<in> set derived_names.
            get_values (velocities_of ext df w) n = Inr (replicate (nrows (frames w ! df)) NaN))
     \<and> NaN \<noteq> Fin 0"
  by (simp add: velocities_of_failure [OF assms] nrows_fill_nan get_col_fill_nan
        get_values_fill_nan)

theorem transform_failure_marks_missing_witness:
  "0 < length (frames (service [one_star]))
   \<and> 0 < nrows (frames (service [one_star]) ! 0)
   \<and> galactocentric_cylindrical failing_transform (frames (service [one_star]) ! 0)
        = Inl (TransformError ''frame transform failed'')
   \<and> nrows (velocities_of failing_transform 0 (service [one_star])) = 1
   \<and> get_col (velocities_of failing_transform 0 (service [one_star])) ''parallax''
        = Inr (FloatCol [Fin 2])
   \<and> get_values (velocities_of failing_transform 0 (service [one_star])) ''V_phi'' = Inr [NaN]
   \<and> get_values (velocities_of failing_transform 0 (service [one_star])) ''distance_kpc''
        = Inr [NaN]"
proof -
  have a: "0 < length (frames (service [one_star]))"
    and b: "0 < nrows (frames (service [one_star]) ! 0)"
    and c: "galactocentric_cylindrical failing_transform (frames (service [one_star]) ! 0)
        = Inl (TransformError ''frame transform failed'')"
    by (simp_all add: sample_defs run_defs)
  have d: "frames (service [one_star]) ! 0 = one_star" by (simp add: service_def)
  have e: "get_col one_star ''parallax'' = Inr (FloatCol [Fin 2])" "nrows one_star = 1"
    by (simp_all add: sample_defs run_defs)
  show ?thesis
    using a b c transform_failure_marks_missing [OF a b c]
    by (simp add: d e derived_names_def)
qed


text \<open>
  C7. In a batch that the transform processes, a row with parallax \<open>x > 0\<close> gets
  \<open>distance_kpc = 1 / x\<close>. The column is computed from the parallax column alone, whatever
  the transform returned, and differs from the \<open>1000 / x\<close> parsec distance handed to the
  transform.
\<close>

theorem distance_kpc_is_reciprocal_parallax:
  assumes "wf_df (frames w ! df)"
    and "galactocentric_cylindrical ext (frames w ! df) = Inr vel"
    and "length vel = nrows (frames w ! df)"
    and "get_values (frames w ! df) ''parallax'' = Inr p"
    and "i < nrows (frames w ! df)" and "p ! i = Fin x" and "0 < x"
  shows "\<exists>dk. get_values (velocities_of ext df w) ''distance_kpc'' = Inr dk
           \<and> dk = map (np_div 1) p \<and> dk ! i = Fin (1 / x) \<and> dk ! i \<noteq> np_div 1000 (p ! i)"
proof -
  from assms(5) have pos: "0 < nrows (frames w ! df)" by simp
  have len: "length p = nrows (frames w ! df)"
    using assms(1,4) by (rule get_values_len)
  have "velocities_of ext df w = derived vel p (frames w ! df)"
    using pos assms(1-4) by (rule velocities_of_success)
  then have "get_values (velocities_of ext df w) ''distance_kpc'' = Inr (map (np_div 1) p)"
    by (simp add: get_values_derived)
  moreover have "map (np_div 1) p ! i = Fin (1 / x)"
    using assms(5-7) len by simp
  moreover have "Fin (1 / x) \<noteq> np_div 1000 (p ! i)"
    using assms(6,7) by (simp add: field_simps)
  ultimately show ?thesis by simp
qed

theorem distance_kpc_is_reciprocal_parallax_witness:
  "wf_df (frames (service [one_star]) ! 0)
   \<and> galactocentric_cylindrical nan_transform (frames (service [one_star]) ! 0)
        = Inr [(NaN, NaN, NaN)]
   \<and> length [(NaN, NaN, NaN)] = nrows (frames (service [one_star]) ! 0)
   \<and> get_values (frames (service [one_star]) ! 0) ''parallax'' = Inr [Fin 2]
   \<and> 0 < nrows (frames (service [one_star]) ! 0) \<and> [Fin 2] ! 0 = Fin 2 \<and> (0::real) < 2
   \<and> get_values (velocities_of nan_transform 0 (service [one_star])) ''distance_kpc''
        = Inr [Fin (1 / 2)]"
proof -
  have a: "wf_df (frames (service [one_star]) ! 0)"
    and b: "galactocentric_cylindrical nan_transform (frames (service [one_star]) ! 0)
        = Inr [(NaN, NaN, NaN)]"
    and c: "length [(NaN, NaN, NaN)] = nrows (frames (service [one_star]) ! 0)"
    and d: "get_values (frames (service [one_star]) ! 0) ''parallax'' = Inr [Fin 2]"
    and e: "0 < nrows (frames (service [one_star]) ! 0)"
    by (simp_all add: sample_defs wf_df_def run_defs)
  have f: "[Fin 2] ! 0 = Fin 2" and g: "(0::real) < 2" by simp_all
  show ?thesis
    using a b c d e distance_kpc_is_reciprocal_parallax [OF a b c d e f g]
    by auto
qed





text \<open>
  C2, as stated, fails: a star without radial velocity, in a batch that the transform
  processes, gets the number 1/2 as its distance_kpc.
\<close>

theorem missing_radial_velocity_keeps_distance:
  "get_values no_radial_velocity ''radial_velocity'' = Inr [NaN]
   \<and> get_values (velocities_of nan_transform 0 (service [no_radial_velocity])) ''distance_kpc''
        = Inr [Fin (1 / 2)]
   \<and> Fin (1 / 2) \<noteq> NaN"
  by (simp add: velocities_of_def sample_defs run_defs)

text \<open>
  C2, amended. A row with parallax <= 0 or without radial velocity has the missing marker
  NaN in V_R, V_phi, V_z and v_total. Its distance_kpc is NaN when the batch is not
  processed, as every batch with a negative parallax in that row is; in a processed
  batch it is \<open>1.0 / parallax\<close>, which is +inf for parallax 0.
\<close>

theorem unconvertible_row_has_no_velocity:
  assumes "df < length (frames w)" and "wf_df (frames w ! df)" and "i < nrows (frames w ! df)"
    and "get_values (frames w ! df) ''parallax'' = Inr p"
    and "get_values (frames w ! df) ''radial_velocity'' = Inr r"
    and "(\<exists>x. p ! i = Fin x \<and> x \<le> 0) \<or> r ! i = NaN"
  shows "\<exists>vr vphi vz vt dk.
           get_values (velocities_of ext df w) ''V_R'' = Inr vr \<and> vr ! i = NaN
         \<and> get_values (velocities_of ext df w) ''V_phi'' = Inr vphi \<and> vphi ! i = NaN
         \<and> get_values (velocities_of ext df w) ''V_z'' = Inr vz \<and> vz ! i = NaN
         \<and> get_values (velocities_of ext df w) ''v_total'' = Inr vt \<and> vt ! i = NaN
         \<and> get_values (velocities_of ext df w) ''distance_kpc'' = Inr dk
         \<and> dk ! i = (if processed ext (frames w ! df) then np_div 1 (p ! i) else NaN)
         \<and> (processed ext (frames w ! df) \<and> p ! i = Fin 0 \<longrightarrow> dk ! i = PInf)
         \<and> ((\<exists>x. p ! i = Fin x \<and> x < 0) \<longrightarrow> \<not> processed ext (frames w ! df))"
proof (cases "processed ext (frames w ! df)")
  case False
  from assms(3) have pos: "0 < nrows (frames w ! df)" by simp
  have "velocities_of ext df w = fill_nan (frames w ! df)"
    using assms(1) pos False by (rule velocities_of_unprocessed)
  with False assms(3) show ?thesis
    by (simp add: get_values_fill_nan derived_names_def)
next
  case True
  then obtain vel where g: "galactocentric_cylindrical ext (frames w ! df) = Inr vel"
    and l: "length vel = nrows (frames w ! df)"
    by (auto simp: processed_def split: sum.splits)
  from assms(3) l have iv: "i < length vel" and pos: "0 < nrows (frames w ! df)" by simp_all
  have len: "length p = nrows (frames w ! df)"
    using assms(2,4) by (rule get_values_len)
  from unconvertible_components [OF g iv assms(4,5,6)]
  have v: "vel ! i = (NaN, NaN, NaN)" and n: "\<not> (\<exists>x. p ! i = Fin x \<and> x < 0)"
    by simp_all
  have V: "velocities_of ext df w = derived vel p (frames w ! df)"
    using pos assms(2) g l assms(4) by (rule velocities_of_success)
  have t: "total_velocity NaN NaN NaN = NaN"
    by (simp add: total_velocity_NaN)
  show ?thesis
    using True iv v n t assms(3) len
    by (simp add: V get_values_derived)
qed

theorem unconvertible_row_has_no_velocity_witness:
  "0 < length (frames (service [no_radial_velocity]))
   \<and> wf_df (frames (service [no_radial_velocity]) ! 0)
   \<and> 0 < nrows (frames (service [no_radial_velocity]) ! 0)
   \<and> get_values (frames (service [no_radial_velocity]) ! 0) ''parallax'' = Inr [Fin 2]
   \<and> get_values (frames (service [no_radial_velocity]) ! 0) ''radial_velocity'' = Inr [NaN]
   \<and> processed finite_transform (frames (service [no_radial_velocity]) ! 0)
   \<and> (\<exists>vr vt dk.
         get_values (velocities_of finite_transform 0 (service [no_radial_velocity])) ''V_R''
           = Inr vr \<and> vr ! 0 = NaN
       \<and> get_values (velocities_of finite_transform 0 (service [no_radial_velocity])) ''v_total''
           = Inr vt \<and> vt ! 0 = NaN
       \<and> get_values (velocities_of finite_transform 0 (service [no_radial_velocity]))
           ''distance_kpc'' = Inr dk \<and> dk ! 0 = Fin (1 / 2))
   \<and> 0 < length (frames (service [mixed_batch]))
   \<and> wf_df (frames (service [mixed_batch]) ! 0)
   \<and> 1 < nrows (frames (service [mixed_batch]) ! 0)
   \<and> get_values (frames (service [mixed_batch]) ! 0) ''parallax'' = Inr [Fin 2, Fin (- 1)]
   \<and> get_values (frames (service [mixed_batch]) ! 0) ''radial_velocity'' = Inr [Fin 5, Fin 6]
   \<and> \<not> processed pair_transform (frames (service [mixed_batch]) ! 0)
   \<and> (\<exists>vr dk.
         get_values (velocities_of pair_transform 0 (service [mixed_batch])) ''V_R''
           = Inr vr \<and> vr ! 1 = NaN
       \<and> get_values (velocities_of pair_transform 0 (service [mixed_batch])) ''distance_kpc''
           = Inr dk \<and> dk ! 1 = NaN)"
proof -
  have a: "0 < length (frames (service [no_radial_velocity]))"
    and b: "wf_df (frames (service [no_radial_velocity]) ! 0)"
    and c: "0 < nrows (frames (service [no_radial_velocity]) ! 0)"
    and d: "get_values (frames (service [no_radial_velocity]) ! 0) ''parallax'' = Inr [Fin 2]"
    and e: "get_values (frames (service [no_radial_velocity]) ! 0) ''radial_velocity''
              = Inr [NaN]"
    and f: "processed finite_transform (frames (service [no_radial_velocity]) ! 0)"
    by (simp_all add: sample_defs wf_df_def processed_def run_defs)
  have g: "(\<exists>x. [Fin 2] ! 0 = Fin x \<and> x \<le> 0) \<or> [NaN] ! 0 = NaN" by simp
  from unconvertible_row_has_no_velocity [OF a b c d e g, of finite_transform] f
  have 1: "\<exists>vr vt dk.
         get_values (velocities_of finite_transform 0 (service [no_radial_velocity])) ''V_R''
           = Inr vr \<and> vr ! 0 = NaN
       \<and> get_values (velocities_of finite_transform 0 (service [no_radial_velocity])) ''v_total''
           = Inr vt \<and> vt ! 0 = NaN
       \<and> get_values (velocities_of finite_transform 0 (service [no_radial_velocity]))
           ''distance_kpc'' = Inr dk \<and> dk ! 0 = Fin (1 / 2)"
    by fastforce
  have a': "0 < length (frames (service [mixed_batch]))"
    and b': "wf_df (frames (service [mixed_batch]) ! 0)"
    and c': "1 < nrows (frames (service [mixed_batch]) ! 0)"
    and d': "get_values (frames (service [mixed_batch]) ! 0) ''parallax''
               = Inr [Fin 2, Fin (- 1)]"
    and e': "get_values (frames (service [mixed_batch]) ! 0) ''radial_velocity''
               = Inr [Fin 5, Fin 6]"
    and f': "\<not> processed pair_transform (frames (service [mixed_batch]) ! 0)"
    by (simp_all add: sample_defs wf_df_def processed_def run_defs)
  have g': "(\<exists>x. [Fin 2, Fin (- 1)] ! 1 = Fin x \<and> x \<le> 0) \<or> [Fin 5, Fin 6] ! 1 = NaN"
    by simp
  from unconvertible_row_has_no_velocity [OF a' b' c' d' e' g', of pair_transform] f'
  have 2: "\<exists>vr dk.
         get_values (velocities_of pair_transform 0 (service [mixed_batch])) ''V_R''
           = Inr vr \<and> vr ! 1 = NaN
       \<and> get_values (velocities_of pair_transform 0 (service [mixed_batch])) ''distance_kpc''
           = Inr dk \<and> dk ! 1 = NaN"
    by fastforce
  show ?thesis
    using a b c d e f 1 a' b' c' d' e' f' 2 by blast
qed

text \<open>The success path and the empty-table path leave every frame of the store as it
  was: only the handler of a failure raised before the copy writes to an existing frame.\<close>

lemma success_branch_copies:
  assumes "galactocentric_cylindrical ext (frames w ! df) = Inr vel \<or> nrows (frames w ! df) = 0"
  shows "take (length (frames w)) (frames (snd (add_galactic_velocities ext df w))) = frames w"
  using assms
  by (auto simp: add_galactic_velocities_def Let_def new_frame_def split: sum.splits)

text \<open>
  C8 at the failing input. The transform raises before line 419, so the handler writes
  the five NaN columns to the caller's own frame (address 0) and returns that same
  address: the caller's frame has gained a V_R column and no copy was made. The same
  happens, whatever the transform does, to a table without a \<open>pmra\<close> column.
\<close>

theorem failure_branch_writes_to_callers_frame:
  "fst (add_galactic_velocities failing_transform 0 (service [one_star])) = 0
   \<and> get_col one_star ''V_R'' = Inl (KeyError ''V_R'')
   \<and> get_col (frames (snd (add_galactic_velocities failing_transform 0 (service [one_star]))) ! 0)
        ''V_R'' = Inr (FloatCol [NaN])
   \<and> frames (snd (add_galactic_velocities failing_transform 0 (service [one_star]))) ! 0
        \<noteq> frames (service [one_star]) ! 0
   \<and> length (frames (snd (add_galactic_velocities failing_transform 0 (service [one_star]))))
        = 1
   \<and> fst (add_galactic_velocities finite_transform 0 (service [no_proper_motion])) = 0
   \<and> get_col no_proper_motion ''V_R'' = Inl (KeyError ''V_R'')
   \<and> get_col (frames (snd (add_galactic_velocities finite_transform 0
                 (service [no_proper_motion]))) ! 0) ''V_R'' = Inr (FloatCol [NaN])"
  by (simp add: sample_defs fill_nan_def derived_names_def set_col_scalar_def run_defs)



section \<open>Accreted halo selections\<close>

lemma keep_length: "length (keep sel xs) \<le> length (filter id sel)"
proof -
  have "length (filter snd (zip xs sel)) \<le> length (filter id sel)"
  proof (induction xs arbitrary: sel)
    case Nil
    then show ?case by simp
  next
    case (Cons x xs)
    then show ?case by (cases sel) (auto simp: le_SucI)
  qed
  then show ?thesis by (simp add: keep_def)
qed

lemma keep_mono:
  assumes "\<And>v. P v \<Longrightarrow> Q v"
  shows "set (keep (map P vs) xs) \<subseteq> set (keep (map Q vs) xs)"
proof -
  have "set (filter snd (zip xs (map P vs))) \<subseteq> set (filter snd (zip xs (map Q vs)))"
  proof (induction xs arbitrary: vs)
    case Nil
    then show ?case by simp
  next
    case (Cons x xs)
    show ?case
    proof (cases vs)
      case Nil
      then show ?thesis by simp
    next
      case (Cons v vs')
      with Cons.IH [of vs'] assms show ?thesis by auto
    qed
  qed
  then show ?thesis unfolding keep_def by (metis image_mono set_map)
qed

lemma keep_map: "map g (keep sel xs) = keep sel (map g xs)"
  by (simp add: keep_def zip_map1 filter_map comp_def case_prod_unfold)

lemma head_list_map: "map g (head_list n xs) = head_list n (map g xs)"
  by (simp add: head_list_def take_map)

lemma head_list_subset: "set (head_list n xs) \<subseteq> set xs"
  by (auto simp: head_list_def dest: in_set_takeD)

lemma as_floats_selected:
  "as_floats (head_col n (keep_col sel c)) = head_list n (keep sel (as_floats c))"
  by (cases c) (simp_all add: keep_map head_list_map)

lemma map_of_columns:
  "map_of (map (\<lambda>(k, c). (k, g c)) ps) k = map_option g (map_of ps k)"
  by (induction ps) auto

lemma get_values_selected:
  "get_values (head n (select_rows sel f)) k =
     (case get_values f k of Inl e \<Rightarrow> Inl e
      | Inr vs \<Rightarrow> Inr (head_list n (keep sel vs)))"
proof -
  have "map_of (columns (head n (select_rows sel f))) k
          = map_option (\<lambda>c. head_col n (keep_col sel c)) (map_of (columns f) k)"
    by (simp add: head_def select_rows_def map_of_columns option.map_comp comp_def
          del: map_map)
  then show ?thesis
    by (simp add: get_values_def get_col_def bind_def as_floats_selected split: option.splits)
qed

lemma halo_mask_all:
  "halo_mask False vphi =
     map (\<lambda>v. flt_lt (flt_abs v) (Fin 100) \<or> flt_lt v (Fin (- 50))) vphi"
  by (induction vphi) (simp_all add: halo_mask_def pointwise_def col_lt_def)

lemma halo_mask_retrograde:
  "halo_mask True vphi = map (\<lambda>v. flt_lt v (Fin (- 50))) vphi"
  by (simp add: halo_mask_def col_lt_def)

lemma selection_subset:
  assumes "int (nrows (head n (select_rows (halo_mask False vphi) f))) < n"
  shows "source_ids (head n (select_rows (halo_mask True vphi) f))
           \<subseteq> source_ids (head n (select_rows (halo_mask False vphi) f))"
proof (cases "get_values f ''source_id''")
  case (Inl e)
  then show ?thesis by (simp add: source_ids_def get_values_selected)
next
  case (Inr ids)
  from assms have n: "0 < n" and c: "length (filter id (halo_mask False vphi)) < nat n"
    by (auto simp: head_def select_rows_def split: if_splits)
  have "length (keep (halo_mask False vphi) ids) < nat n"
    using keep_length [of "halo_mask False vphi" ids] c by simp
  then have whole: "head_list n (keep (halo_mask False vphi) ids) = keep (halo_mask False vphi) ids"
    using n by (simp add: head_list_def)
  have "set (head_list n (keep (halo_mask True vphi) ids)) \<subseteq> set (keep (halo_mask True vphi) ids)"
    by (rule head_list_subset)
  also have "\<dots> \<subseteq> set (keep (halo_mask False vphi) ids)"
    unfolding halo_mask_all halo_mask_retrograde by (rule keep_mono) simp
  finally show ?thesis
    by (simp add: source_ids_def get_values_selected Inr whole)
qed


lemma installed_data:
  assumes "r < length (results w3)" "new_frame X w3 = (d', w4)"
  shows "data_of r (set_description r desc
            (set_row_count r (len_data r (set_data r d' w4)) (set_data r d' w4))) = X"
  using assms
  by (auto simp: new_frame_def set_data_def set_row_count_def set_description_def
        len_data_def data_of_def)

lemma described_data:
  assumes "r < length (results w)"
  shows "data_of r (set_description r desc w) = data_of r w"
  using assms by (simp add: set_description_def data_of_def)

lemma search_accreted_halo_Inr:
  assumes "search_accreted_halo ext retro limit w = (Inr r, w')"
  shows "\<exists>w1. execute_adql ext (accreted_halo_query (table w)
                 (or_default limit (default_results w))) w = (Inr r, w1)
           \<and> (if 0 < len_data r w1
               then \<exists>d w2 vphi.
                      add_galactic_velocities ext (data (results w1 ! r)) w1 = (d, w2)
                    \<and> get_values (data_of r (set_data r d w2)) ''V_phi'' = Inr vphi
                    \<and> data_of r w' = head (or_default limit (default_results w))
                          (select_rows (halo_mask retro vphi) (data_of r (set_data r d w2)))
               else data_of r w' = data_of r w1)"
proof -
  obtain x w1 where e: "execute_adql ext (accreted_halo_query (table w)
      (or_default limit (default_results w))) w = (x, w1)"
    by force
  show ?thesis
  proof (cases x)
    case (Inl err)
    with e assms show ?thesis
      by (simp add: search_accreted_halo_def Let_def)
  next
    case r': (Inr r')
    note e = e [unfolded r']
    show ?thesis
    proof (cases "0 < len_data r' w1")
      case False
      with e assms have "r' = r" "w' = set_description r' (accreted_halo_description retro) w1"
        by (auto simp: search_accreted_halo_def Let_def)
      with e False described_data [OF execute_adql_bound [OF e]] show ?thesis
        by simp
    next
      case True
      obtain d w2 where a: "add_galactic_velocities ext (data (results w1 ! r')) w1 = (d, w2)"
        by force
      show ?thesis
      proof (cases "get_values (data_of r' (set_data r' d w2)) ''V_phi''")
        case (Inl err)
        with e a True assms show ?thesis
          by (simp add: search_accreted_halo_def Let_def)
      next
        case (Inr vphi)
        obtain d' w4 where n: "new_frame (head (or_default limit (default_results w))
            (select_rows (halo_mask retro vphi) (data_of r' (set_data r' d w2))))
            (set_data r' d w2) = (d', w4)"
          by force
        from e a True Inr n assms
        have "r' = r" "w' = set_description r' (accreted_halo_description retro)
                 (set_row_count r' (len_data r' (set_data r' d' w4)) (set_data r' d' w4))"
          by (auto simp: search_accreted_halo_def Let_def)
        with installed_data [OF velocities_then_bound [OF e a] n] e a True Inr
        show ?thesis by simp
      qed
    qed
  qed
qed

lemmas halo_defs =
  halo_pair_def retrograde_star_def search_accreted_halo_def halo_mask_def head_def
  head_list_def source_ids_def run_defs

text \<open>
  C5, as stated, fails twice. With limit 1 and an archive returning a slow star (id 1)
  before a retrograde star (id 2), \<open>head(limit)\<close> keeps id 2 for the retrograde selection
  and id 1 for the full selection: no inclusion. With an archive returning one retrograde
  star, both selections are that star: the inclusion is not strict.
\<close>

theorem retrograde_not_strict_subset:
  "fst (search_accreted_halo halo_pair True (Some 1) (service [])) = Inr 0
   \<and> fst (search_accreted_halo halo_pair False (Some 1) (service [])) = Inr 0
   \<and> source_ids (data_of 0 (snd (search_accreted_halo halo_pair True (Some 1) (service []))))
       = {Fin 2}
   \<and> source_ids (data_of 0 (snd (search_accreted_halo halo_pair False (Some 1) (service []))))
       = {Fin 1}
   \<and> \<not> source_ids (data_of 0 (snd (search_accreted_halo halo_pair True (Some 1) (service []))))
       \<subseteq> source_ids (data_of 0 (snd (search_accreted_halo halo_pair False (Some 1) (service []))))
   \<and> source_ids (data_of 0 (snd (search_accreted_halo retrograde_star True None (service []))))
       = {Fin 7}
   \<and> source_ids (data_of 0 (snd (search_accreted_halo retrograde_star False None (service []))))
       = {Fin 7}
   \<and> \<not> source_ids (data_of 0 (snd (search_accreted_halo retrograde_star True None (service []))))
       \<subset> source_ids (data_of 0 (snd (search_accreted_halo retrograde_star False None (service []))))"
proof -
  have 1: "source_ids (data_of 0 (snd (search_accreted_halo halo_pair True (Some 1) (service []))))
       = {Fin 2}"
    and 2: "source_ids (data_of 0 (snd (search_accreted_halo halo_pair False (Some 1) (service []))))
       = {Fin 1}"
    and 3: "source_ids (data_of 0 (snd (search_accreted_halo retrograde_star True None (service []))))
       = {Fin 7}"
    and 4: "source_ids (data_of 0 (snd (search_accreted_halo retrograde_star False None (service []))))
       = {Fin 7}"
    and 5: "fst (search_accreted_halo halo_pair True (Some 1) (service [])) = Inr 0"
    and 6: "fst (search_accreted_halo halo_pair False (Some 1) (service [])) = Inr 0"
    by (simp_all add: halo_defs)
  show ?thesis unfolding 1 2 3 4 5 6 by simp
qed

text \<open>
  C5, amended. For the same archive response and the same limit, the source_id values
  returned with \<open>retrograde_only=True\<close> are among those returned with
  \<open>retrograde_only=False\<close> (possibly all of them) whenever the latter result has fewer
  rows than the limit, that is whenever \<open>head(limit)\<close> cut nothing off it.
\<close>

theorem retrograde_subset_when_not_truncated:
  assumes "search_accreted_halo ext True limit w = (Inr r1, w1)"
    and "search_accreted_halo ext False limit w = (Inr r2, w2)"
    and "int (len_data r2 w2) < or_default limit (default_results w)"
  shows "source_ids (data_of r1 w1) \<subseteq> source_ids (data_of r2 w2)"
proof -
  from search_accreted_halo_Inr [OF assms(1)] obtain wa where
    e1: "execute_adql ext (accreted_halo_query (table w)
           (or_default limit (default_results w))) w = (Inr r1, wa)"
    and k1: "if 0 < len_data r1 wa
             then \<exists>d w2 vphi.
                    add_galactic_velocities ext (data (results wa ! r1)) wa = (d, w2)
                  \<and> get_values (data_of r1 (set_data r1 d w2)) ''V_phi'' = Inr vphi
                  \<and> data_of r1 w1 = head (or_default limit (default_results w))
                        (select_rows (halo_mask True vphi) (data_of r1 (set_data r1 d w2)))
             else data_of r1 w1 = data_of r1 wa"
    by blast
  from search_accreted_halo_Inr [OF assms(2)] obtain wb where
    e2: "execute_adql ext (accreted_halo_query (table w)
           (or_default limit (default_results w))) w = (Inr r2, wb)"
    and k2: "if 0 < len_data r2 wb
             then \<exists>d w2' vphi.
                    add_galactic_velocities ext (data (results wb ! r2)) wb = (d, w2')
                  \<and> get_values (data_of r2 (set_data r2 d w2')) ''V_phi'' = Inr vphi
                  \<and> data_of r2 w2 = head (or_default limit (default_results w))
                        (select_rows (halo_mask False vphi) (data_of r2 (set_data r2 d w2')))
             else data_of r2 w2 = data_of r2 wb"
    by blast
  from e1 e2 have same: "r2 = r1" "wb = wa" by simp_all
  show ?thesis
  proof (cases "0 < len_data r1 wa")
    case False
    with k1 k2 same show ?thesis by simp
  next
    case True
    with k1 obtain d wv vphi where
      a: "add_galactic_velocities ext (data (results wa ! r1)) wa = (d, wv)"
      and g: "get_values (data_of r1 (set_data r1 d wv)) ''V_phi'' = Inr vphi"
      and d1: "data_of r1 w1 = head (or_default limit (default_results w))
                 (select_rows (halo_mask True vphi) (data_of r1 (set_data r1 d wv)))"
      by auto
    from True k2 same a g
    have d2: "data_of r2 w2 = head (or_default limit (default_results w))
                 (select_rows (halo_mask False vphi) (data_of r1 (set_data r1 d wv)))"
      by auto
    from assms(3) have "int (nrows (data_of r2 w2)) < or_default limit (default_results w)"
      by (simp add: len_data_def)
    then show ?thesis
      unfolding d1 d2 by (rule selection_subset)
  qed
qed


theorem retrograde_subset_when_not_truncated_witness:
  "search_accreted_halo halo_pair True None (service [])
     = (Inr 0, snd (search_accreted_halo halo_pair True None (service [])))
   \<and> search_accreted_halo halo_pair False None (service [])
     = (Inr 0, snd (search_accreted_halo halo_pair False None (service [])))
   \<and> int (len_data 0 (snd (search_accreted_halo halo_pair False None (service []))))
       < or_default None (default_results (service []))
   \<and> source_ids (data_of 0 (snd (search_accreted_halo halo_pair True None (service []))))
       = {Fin 2}
   \<and> source_ids (data_of 0 (snd (search_accreted_halo halo_pair True None (service []))))
       \<subseteq> source_ids (data_of 0 (snd (search_accreted_halo halo_pair False None (service []))))"
proof -
  have 1: "fst (search_accreted_halo halo_pair True None (service [])) = Inr 0"
    and 2: "fst (search_accreted_halo halo_pair False None (service [])) = Inr 0"
    by (simp_all add: halo_defs)
  have a: "search_accreted_halo halo_pair True None (service [])
     = (Inr 0, snd (search_accreted_halo halo_pair True None (service [])))"
    using 1 by (simp add: prod_eq_iff)
  have b: "search_accreted_halo halo_pair False None (service [])
     = (Inr 0, snd (search_accreted_halo halo_pair False None (service [])))"
    using 2 by (simp add: prod_eq_iff)
  have c: "int (len_data 0 (snd (search_accreted_halo halo_pair False None (service []))))
       < or_default None (default_results (service []))"
    by (simp add: halo_defs)
  have d: "source_ids (data_of 0 (snd (search_accreted_halo halo_pair True None (service []))))
       = {Fin 2}"
    by (simp add: halo_defs)
  show ?thesis
    using a b c d retrograde_subset_when_not_truncated [OF a b c] by blast
qed


end
